theory Spec2Isabelle
  imports Complex_Main "HOL-Library.AList"
begin

section \<open>Strings\<close>

text \<open>
  The server is JavaScript; its strings are modelled as \<open>string\<close>, read as the UTF-8 bytes
  of the text. The characters the parser looks for (brackets, parentheses, digits, the
  ASCII comma, the bar) are single bytes that never occur inside a longer UTF-8 sequence;
  the Arabic comma U+060C is the two bytes D8 8C. Quantities are \<open>int\<close>: the counts of a
  stock or sales report (JavaScript numbers are exact on integers up to \<open>2 ^ 53\<close>).
\<close>

definition is_digit :: "char \<Rightarrow> bool" where
  \<comment> \<open>the regular expression class \<open>\d\<close>\<close>
  "is_digit c = (c \<in> set ''0123456789'')"

definition js_whitespace :: "string list" where
  \<comment> \<open>what \<open>trim()\<close> strips and \<open>\s\<close> matches: TAB, LF, VT, FF, CR, space, U+00A0, U+1680,
     U+2000 to U+200A, U+2028, U+2029, U+202F, U+205F, U+3000 and U+FEFF, in UTF-8\<close>
  "js_whitespace =
     [[CHR 0x09], [CHR 0x0A], [CHR 0x0B], [CHR 0x0C], [CHR 0x0D], [CHR 0x20],
      [CHR 0xC2, CHR 0xA0], [CHR 0xE1, CHR 0x9A, CHR 0x80]] @
     map (\<lambda>b. [CHR 0xE2, CHR 0x80, b])
       [CHR 0x80, CHR 0x81, CHR 0x82, CHR 0x83, CHR 0x84, CHR 0x85, CHR 0x86, CHR 0x87,
        CHR 0x88, CHR 0x89, CHR 0x8A, CHR 0xA8, CHR 0xA9, CHR 0xAF] @
     [[CHR 0xE2, CHR 0x81, CHR 0x9F], [CHR 0xE3, CHR 0x80, CHR 0x80],
      [CHR 0xEF, CHR 0xBB, CHR 0xBF]]"

definition starts_with :: "string \<Rightarrow> string \<Rightarrow> bool" where
  "starts_with w s = (w \<noteq> [] \<and> take (length w) s = w)"

function strip_leading :: "string list \<Rightarrow> string \<Rightarrow> string" where
  "strip_leading ws s =
     (case List.find (\<lambda>w. starts_with w s) ws of
        None \<Rightarrow> s
      | Some w \<Rightarrow> strip_leading ws (drop (length w) s))"
  by pat_completeness auto
termination
proof (relation "measure (\<lambda>(ws, s). length s)")
  show "wf (measure (\<lambda>(ws, s). length s))" by simp
next
  fix ws :: "string list" and s w :: string
  assume "List.find (\<lambda>w. starts_with w s) ws = Some w"
  then have "starts_with w s" by (auto simp: find_Some_iff)
  then have w: "w \<noteq> []" and "take (length w) s = w" by (auto simp: starts_with_def)
  then have "s \<noteq> []" by auto
  with w show "((ws, drop (length w) s), (ws, s)) \<in> measure (\<lambda>(ws, s). length s)"
    by (cases s; cases w) auto
qed

definition skip_ws :: "string \<Rightarrow> string" where
  \<comment> \<open>\<open>\s*\<close> in front of something that is not whitespace\<close>
  "skip_ws s = strip_leading js_whitespace s"

definition trim :: "string \<Rightarrow> string" where
  \<comment> \<open>\<open>String.prototype.trim\<close>: both ends\<close>
  "trim s = rev (strip_leading (map rev js_whitespace) (rev (skip_ws s)))"

definition upper_ascii :: "char \<Rightarrow> char" where
  "upper_ascii c =
     (case map_of (zip ''abcdefghijklmnopqrstuvwxyz'' ''ABCDEFGHIJKLMNOPQRSTUVWXYZ'') c of
        Some u \<Rightarrow> u | None \<Rightarrow> c)"

definition lower_ascii :: "char \<Rightarrow> char" where
  "lower_ascii c =
     (case map_of (zip ''ABCDEFGHIJKLMNOPQRSTUVWXYZ'' ''abcdefghijklmnopqrstuvwxyz'') c of
        Some l \<Rightarrow> l | None \<Rightarrow> c)"

fun toUpperCase :: "string \<Rightarrow> string" where
  \<comment> \<open>\<open>String.prototype.toUpperCase\<close> where the size grammar can tell: the ASCII letters, and
     U+017F (long s, bytes C5 BF) whose upper case is S; every other byte is kept\<close>
  "toUpperCase [] = []"
| "toUpperCase [c] = [upper_ascii c]"
| "toUpperCase (c # d # cs) =
     (if c = CHR 0xC5 \<and> d = CHR 0xBF then CHR ''S'' # toUpperCase cs
      else upper_ascii c # toUpperCase (d # cs))"

definition toLowerCase :: "string \<Rightarrow> string" where
  \<comment> \<open>\<open>String.prototype.toLowerCase\<close> on the ASCII letters; it is only compared with
     \<open>quantity\<close>\<close>
  "toLowerCase s = map lower_ascii s"

section \<open>Parsing one text line\<close>

subsection \<open>The regular expressions\<close>

definition sku_here :: "string \<Rightarrow> string option" where
  \<comment> \<open>\<open>\[(\d+)\]\<close> matched at the head of the text\<close>
  "sku_here s =
     (case s of
        [] \<Rightarrow> None
      | c # r \<Rightarrow>
          if c = CHR ''['' \<and> takeWhile is_digit r \<noteq> [] \<and> take 1 (dropWhile is_digit r) = '']''
          then Some (takeWhile is_digit r) else None)"

fun skuMatch :: "string \<Rightarrow> string option" where
  \<comment> \<open>\<open>text.match(skuRegex)\<close>: the capture of the leftmost match of \<open>/\[(\d+)\]/\<close>\<close>
  "skuMatch [] = None"
| "skuMatch (c # cs) = (case sku_here (c # cs) of Some d \<Rightarrow> Some d | None \<Rightarrow> skuMatch cs)"

fun parenScan :: "string option \<Rightarrow> string \<Rightarrow> string list" where
  \<comment> \<open>the loop over \<open>parenRegex.exec\<close> with \<open>/\(([^()]*)\)/g\<close>: the captures of the matches,
     left to right. The first argument is the text read since the last open parenthesis
     (reversed), if one is pending: a second open parenthesis drops it, a closing one
     completes the match.\<close>
  "parenScan cur [] = []"
| "parenScan cur (c # cs) =
     (if c = CHR ''('' then parenScan (Some []) cs
      else if c = CHR '')'' then
        (case cur of
           Some acc \<Rightarrow> rev acc # parenScan None cs
         | None \<Rightarrow> parenScan None cs)
      else parenScan (map_option (\<lambda>acc. c # acc) cur) cs)"

fun splitCommas :: "string \<Rightarrow> string list" where
  \<comment> \<open>\<open>last.split(/[,\<dots>]/)\<close> on the ASCII comma and the Arabic comma (bytes D8 8C)\<close>
  "splitCommas [] = [[]]"
| "splitCommas [c] = (if c = CHR '','' then [[], []] else [[c]])"
| "splitCommas (c # d # cs) =
     (if c = CHR '','' then [] # splitCommas (d # cs)
      else if c = CHR 0xD8 \<and> d = CHR 0x8C then [] # splitCommas cs
      else (case splitCommas (d # cs) of
              p # ps \<Rightarrow> (c # p) # ps
            | [] \<Rightarrow> [[c]]))"

definition re_number :: "string \<Rightarrow> bool" where
  \<comment> \<open>\<open>/^\d+(\.\d+)?$/\<close>\<close>
  "re_number s =
     (let r = dropWhile is_digit s in
      takeWhile is_digit s \<noteq> [] \<and>
      (r = [] \<or> (take 1 r = ''.'' \<and> tl r \<noteq> [] \<and> list_all is_digit (tl r))))"

definition re_letters :: "string \<Rightarrow> bool" where
  \<comment> \<open>\<open>/^(XXS|XS|S|M|L|XL|XXL|XXXL)$/\<close>\<close>
  "re_letters s = (s \<in> set [''XXS'', ''XS'', ''S'', ''M'', ''L'', ''XL'', ''XXL'', ''XXXL''])"

definition re_age :: "string \<Rightarrow> bool" where
  \<comment> \<open>\<open>/^\d+\s*(Y|YR|YEARS|M|MO|MONTHS)$/\<close>\<close>
  "re_age s =
     (takeWhile is_digit s \<noteq> [] \<and>
      skip_ws (dropWhile is_digit s) \<in> set [''Y'', ''YR'', ''YEARS'', ''M'', ''MO'', ''MONTHS''])"

definition re_range :: "string \<Rightarrow> bool" where
  \<comment> \<open>\<open>/^\d+\s*[-\/]\s*\d+$/\<close>\<close>
  "re_range s =
     (let r = skip_ws (dropWhile is_digit s) in
      takeWhile is_digit s \<noteq> [] \<and>
      (take 1 r = ''-'' \<or> take 1 r = ''/'') \<and>
      skip_ws (tl r) \<noteq> [] \<and> list_all is_digit (skip_ws (tl r)))"

subsection \<open>looksLikeSize and parseTextLine\<close>

definition looksLikeSize :: "string \<Rightarrow> bool" where
  "looksLikeSize v =
     (let s = toUpperCase (trim v) in
      if s = [] then False
      else if re_number s then True
      else if re_letters s then True
      else if re_age s then True
      else if re_range s then True
      else False)"

record line_key =
  sku :: string
  color :: string
  size' :: string

definition splitParts :: "string \<Rightarrow> string list" where
  \<comment> \<open>\<open>last.split(/[,\<dots>]/).map(x => x.trim()).filter(Boolean)\<close>\<close>
  "splitParts last_group = filter (\<lambda>x. x \<noteq> []) (map trim (splitCommas last_group))"

definition parseTextLine :: "string \<Rightarrow> line_key" where
  "parseTextLine t =
     (case skuMatch t of
        None \<Rightarrow> \<lparr>sku = [], color = [], size' = []\<rparr>
      | Some k \<Rightarrow>
          (let parens = parenScan None t in
           if parens = [] then \<lparr>sku = k, color = [], size' = []\<rparr>
           else
             (case splitParts (last parens) of
                p1 # p2 # _ \<Rightarrow>
                  if looksLikeSize p1 \<and> \<not> looksLikeSize p2
                  then \<lparr>sku = k, color = p2, size' = p1\<rparr>
                  else \<lparr>sku = k, color = p1, size' = p2\<rparr>
              | [p] \<Rightarrow>
                  if looksLikeSize p then \<lparr>sku = k, color = [], size' = p\<rparr>
                  else \<lparr>sku = k, color = p, size' = []\<rparr>
              | [] \<Rightarrow> \<lparr>sku = k, color = [], size' = []\<rparr>)))"

section \<open>Row aggregation\<close>

text \<open>
  The file decoder hands over rows \<open>[r[0], r[1]]\<close>. A row is modelled by the text
  \<open>String(r[0] ?? "")\<close> and the number \<open>Number(r[1])\<close>, \<open>None\<close> when that is \<open>NaN\<close>.
\<close>

type_synonym row = "string \<times> int option"

record cat_key = line_key +
  category :: string

record item = cat_key +
  qty :: int

definition makeKey :: "string \<Rightarrow> string \<Rightarrow> string \<Rightarrow> string" where
  "makeKey k z c = k @ ''||'' @ z @ ''||'' @ c"

definition key_of :: "'a cat_key_scheme \<Rightarrow> string" where
  \<comment> \<open>\<open>makeKey(it.sku, it.size, it.color)\<close>\<close>
  "key_of it = makeKey (sku it) (size' it) (color it)"

definition get_or_zero :: "(string \<times> int) list \<Rightarrow> string \<Rightarrow> int" where
  \<comment> \<open>\<open>m.get(key) || 0\<close>\<close>
  "get_or_zero m k = (case map_of m k of Some v \<Rightarrow> v | None \<Rightarrow> 0)"

definition add_qty :: "string \<Rightarrow> int \<Rightarrow> (string \<times> int) list \<Rightarrow> (string \<times> int) list" where
  \<comment> \<open>\<open>m.set(key, (m.get(key) || 0) + q)\<close> on a Map, which keeps the order in which keys
     were first set\<close>
  "add_qty k q m = AList.update k (get_or_zero m k + q) m"

fun splitBars :: "string \<Rightarrow> string list" where
  \<comment> \<open>\<open>key.split("||")\<close>\<close>
  "splitBars [] = [[]]"
| "splitBars [c] = [[c]]"
| "splitBars (c # d # cs) =
     (if c = CHR ''|'' \<and> d = CHR ''|'' then [] # splitBars cs
      else (case splitBars (d # cs) of
              p # ps \<Rightarrow> (c # p) # ps
            | [] \<Rightarrow> [[c]]))"

definition segment :: "string list \<Rightarrow> nat \<Rightarrow> string" where
  \<comment> \<open>an element of the destructured array; a key has three separators, so the four
     elements read are there (a missing one would be \<open>undefined\<close>)\<close>
  "segment segs i = (if i < length segs then segs ! i else ''undefined'')"

fun parseRows_loop :: "string \<Rightarrow> (string \<times> int) list \<Rightarrow> row list \<Rightarrow> (string \<times> int) list" where
  \<comment> \<open>the first loop of parseRows, with \<open>currentCategory\<close> and the map \<open>agg\<close>\<close>
  "parseRows_loop currentCategory agg [] = agg"
| "parseRows_loop currentCategory agg ((cell, n) # rs) =
     (let t = trim cell; q = (case n of Some v \<Rightarrow> v | None \<Rightarrow> 0) in
      if t = [] then parseRows_loop currentCategory agg rs
      else if skuMatch t = None then
        parseRows_loop (if toLowerCase t \<noteq> ''quantity'' then t else currentCategory) agg rs
      else
        (let p = parseTextLine t in
         if sku p = [] then parseRows_loop currentCategory agg rs
         else parseRows_loop currentCategory
                (add_qty (currentCategory @ ''||'' @ sku p @ ''||'' @ size' p @ ''||'' @ color p) q agg)
                rs))"

definition parseRows :: "row list \<Rightarrow> item list" where
  "parseRows rows =
     map (\<lambda>(key, q).
            let segs = splitBars key in
            \<lparr>sku = segment segs 1, color = segment segs 3, size' = segment segs 2,
             category = segment segs 0, qty = q\<rparr>)
         (parseRows_loop [] [] rows)"

section \<open>Limits\<close>

text \<open>
  The limits file holds JSON numbers; a bound is a \<open>rat\<close>, and \<open>None\<close> where the file has
  no such field.
\<close>

record sku_limits =
  min' :: "rat option"
  max' :: "rat option"

record limits_cfg =
  defaultMin :: "rat option"
  defaultMax :: "rat option"
  skus :: "(string \<times> sku_limits) list"

definition or_one :: "rat option \<Rightarrow> rat" where
  \<comment> \<open>\<open>Number(d || 1)\<close>: a missing default and a default of 0 both give 1\<close>
  "or_one d = (case d of None \<Rightarrow> 1 | Some v \<Rightarrow> if v = 0 then 1 else v)"

definition getSkuLimits :: "limits_cfg \<Rightarrow> string \<Rightarrow> int \<times> int" where
  \<comment> \<open>the result \<open>{min, max}\<close> as a pair; the limits file is an argument\<close>
  "getSkuLimits lims k =
     (let r = (case map_of (skus lims) k of
                 Some r \<Rightarrow> r
               | None \<Rightarrow> \<lparr>min' = None, max' = None\<rparr>);
          mn = (case min' r of Some v \<Rightarrow> v | None \<Rightarrow> or_one (defaultMin lims));
          mx = (case max' r of Some v \<Rightarrow> v | None \<Rightarrow> or_one (defaultMax lims))
      in (max 0 \<lfloor>mn\<rfloor>, max 0 \<lfloor>mx\<rfloor>))"

definition clampPull :: "int \<Rightarrow> int \<Rightarrow> int \<Rightarrow> int" where
  "clampPull b mn mx = (if b < mn then 0 else min b mx)"

definition default_limits :: limits_cfg where
  \<comment> \<open>what loadLimits gives before the file exists\<close>
  "default_limits = \<lparr>defaultMin = Some 1, defaultMax = Some 1, skus = []\<rparr>"

datatype error =
  MissingParam | NotANumber | StockEmpty | RunNotFound | LineNotFound | ItemNotInStock
  | InsufficientStock int int

definition api_limits_setDefault :: "rat option \<Rightarrow> rat option \<Rightarrow> limits_cfg \<Rightarrow> error + limits_cfg" where
  \<comment> \<open>POST /api/limits/setDefault; an argument is \<open>None\<close> when \<open>Number(...)\<close> is not finite\<close>
  "api_limits_setDefault dmin dmax lims =
     (case (dmin, dmax) of
        (Some a, Some b) \<Rightarrow>
          Inr (lims\<lparr>defaultMin := Some (of_int (max 0 \<lfloor>a\<rfloor>)),
                   defaultMax := Some (of_int (max 0 \<lfloor>b\<rfloor>))\<rparr>)
      | _ \<Rightarrow> Inl NotANumber)"

definition api_limits_set :: "string \<Rightarrow> rat option \<Rightarrow> rat option \<Rightarrow> limits_cfg \<Rightarrow> error + limits_cfg" where
  \<comment> \<open>POST /api/limits/set\<close>
  "api_limits_set sku_raw mn mx lims =
     (if trim sku_raw = [] then Inl MissingParam
      else case (mn, mx) of
        (Some a, Some b) \<Rightarrow>
          Inr (lims\<lparr>skus := AList.update (trim sku_raw)
                   \<lparr>min' = Some (of_int (max 0 \<lfloor>a\<rfloor>)), max' = Some (of_int (max 0 \<lfloor>b\<rfloor>))\<rparr>
                   (skus lims)\<rparr>)
      | _ \<Rightarrow> Inl NotANumber)"

section \<open>The stored documents\<close>

text \<open>
  Four JSON files hold the state: the stock ledger, the run history, the new-collection
  batch and the limits. A JavaScript object with string keys keeps the order in which the
  keys were first set (no ledger key is an array index: each contains \<open>||\<close>), so the ledger
  is an association list, read with \<open>map_of\<close> and written with \<open>AList.update\<close>. A time is
  the number of milliseconds since the epoch; the files hold it as the ISO string of
  \<open>toISOString()\<close>, which \<open>new Date(...).getTime()\<close> reads back.
\<close>

datatype status = Pending | Done

record line_head = cat_key +
  lineId :: string
  status :: status
  executedAt :: "int option"

record replan_line = line_head +
  stockQty :: int
  salesQty :: int
  balance :: int
  pullQty :: int

record nc_line = line_head +
  nc_qty :: int

record run =
  runId :: string
  createdAt :: int
  categoryFilter :: string
  salesFileName :: string
  lines :: "replan_line list"

record stock_master =
  updatedAt :: "int option"
  sourceFileName :: "string option"
  items :: "(string \<times> item) list"

datatype nc_mode = BASE_PENDING_ALL | UPDATE_PENDING_NEW_ONLY

record new_collection =
  nc_createdAt :: "int option"
  mode :: "nc_mode option"
  nc_items :: "nc_line list"

record state =
  stock :: stock_master
  runs :: "run list"
  newc :: new_collection
  limits :: limits_cfg

definition initial_state :: state where
  \<comment> \<open>the fallbacks of loadStockMaster, loadRuns, loadNewCollection and loadLimits\<close>
  "initial_state =
     \<lparr>stock = \<lparr>updatedAt = None, sourceFileName = None, items = []\<rparr>,
      runs = [],
      newc = \<lparr>nc_createdAt = None, mode = None, nc_items = []\<rparr>,
      limits = default_limits\<rparr>"

fun update_first :: "('a \<Rightarrow> bool) \<Rightarrow> ('a \<Rightarrow> 'a) \<Rightarrow> 'a list \<Rightarrow> 'a list" where
  \<comment> \<open>assignment to the fields of the object that \<open>Array.prototype.find\<close> returned\<close>
  "update_first P f [] = []"
| "update_first P f (x # xs) = (if P x then f x # xs else x # update_first P f xs)"

fun insert_by :: "('a \<Rightarrow> 'a \<Rightarrow> int) \<Rightarrow> 'a \<Rightarrow> 'a list \<Rightarrow> 'a list" where
  "insert_by cmp x [] = [x]"
| "insert_by cmp x (y # ys) = (if cmp x y \<le> 0 then x # y # ys else y # insert_by cmp x ys)"

definition js_sort :: "('a \<Rightarrow> 'a \<Rightarrow> int) \<Rightarrow> 'a list \<Rightarrow> 'a list" where
  \<comment> \<open>\<open>Array.prototype.sort(cmp)\<close>, a stable sort: elements that compare equal keep their
     order. It is written as an insertion sort; on a comparator that is a total preorder
     every stable sort gives the same list.\<close>
  "js_sort cmp xs = foldr (insert_by cmp) xs []"

text \<open>
  \<open>String.prototype.localeCompare\<close> is the collation of the host, which is not code of the
  server: the handler that sorts with it takes it as an argument, a function that is
  negative, zero or positive as its first argument comes before, with or after its second.
  What a sort needs of it is that it is consistent.
\<close>

type_synonym collation = "string \<Rightarrow> string \<Rightarrow> int"

definition consistent :: "collation \<Rightarrow> bool" where
  \<comment> \<open>a consistent comparator: swapping the arguments swaps the sign, and coming before or
     with is transitive\<close>
  "consistent cmp =
     ((\<forall>x y. cmp x y < 0 \<longleftrightarrow> 0 < cmp y x) \<and>
      (\<forall>x y z. cmp x y \<le> 0 \<and> cmp y z \<le> 0 \<longrightarrow> cmp x z \<le> 0))"

fun codeunit_compare :: collation where
  \<comment> \<open>the lexicographic order of the characters. It is not the collation of the host, but
     agrees with it on strings of ASCII digits.\<close>
  "codeunit_compare [] [] = 0"
| "codeunit_compare [] (y # ys) = - 1"
| "codeunit_compare (x # xs) [] = 1"
| "codeunit_compare (x # xs) (y # ys) =
     (if (of_char x :: nat) < of_char y then - 1
      else if (of_char y :: nat) < of_char x then 1
      else codeunit_compare xs ys)"

definition fold_case_compare :: collation where
  \<comment> \<open>a collation that does not tell a capital letter from a small one, and so puts \<open>b\<close>
     before \<open>C\<close>, as the host's \<open>localeCompare\<close> does\<close>
  "fold_case_compare x y = codeunit_compare (toLowerCase x) (toLowerCase y)"

function digits_of :: "int \<Rightarrow> string" where
  "digits_of n =
     (if n < 10 then [''0123456789'' ! nat n]
      else digits_of (n div 10) @ [''0123456789'' ! nat (n mod 10)])"
  by pat_completeness auto
termination
  by (relation "measure nat") auto

definition string_of_int :: "int \<Rightarrow> string" where
  \<comment> \<open>the decimal digits that \<open>"RUN-" + Date.now()\<close> appends\<close>
  "string_of_int i = (if i < 0 then CHR ''-'' # digits_of (- i) else digits_of i)"

section \<open>Stock update\<close>

definition build_items :: "item list \<Rightarrow> (string \<times> item) list" where
  \<comment> \<open>\<open>newItems[key] = {sku, size, color, category, qty}\<close> for each parsed entry in turn\<close>
  "build_items parsed = foldl (\<lambda>m it. AList.update (key_of it) it m) [] parsed"

definition nc_line_of :: "string \<Rightarrow> item \<Rightarrow> nc_line" where
  "nc_line_of key x =
     \<lparr>sku = sku x, color = color x, size' = size' x, category = category x,
      lineId = key, status = Pending, executedAt = None, nc_qty = 1\<rparr>"

definition api_stock_update :: "int \<Rightarrow> string \<Rightarrow> row list \<Rightarrow> state \<Rightarrow> state" where
  \<comment> \<open>POST /api/stock/update after the password check and the decoding of the file into
     rows; \<open>now\<close> is the clock, \<open>fname\<close> the name of the uploaded file. The answer (the
     time and the two counts) is read off the new state.\<close>
  "api_stock_update now fname rows s =
     (let oldItems = items (stock s);
          hadOldStock = (oldItems \<noteq> []);
          newItems = build_items (parseRows rows);
          newCollection =
            (if \<not> hadOldStock then
               map (\<lambda>(key, x). nc_line_of key x) (filter (\<lambda>(key, x). qty x \<ge> 1) newItems)
             else
               map (\<lambda>(key, x). nc_line_of key x)
                 (filter (\<lambda>(key, x). map_of oldItems key = None \<and> qty x \<ge> 1) newItems))
      in s\<lparr>newc := \<lparr>nc_createdAt = Some now,
                    mode = Some (if \<not> hadOldStock then BASE_PENDING_ALL
                                 else UPDATE_PENDING_NEW_ONLY),
                    nc_items = newCollection\<rparr>,
           stock := \<lparr>updatedAt = Some now, sourceFileName = Some fname, items = newItems\<rparr>\<rparr>)"

definition api_stock_clear :: "int \<Rightarrow> state \<Rightarrow> state" where
  \<comment> \<open>POST /api/stock/clear\<close>
  "api_stock_clear now s =
     s\<lparr>stock := \<lparr>updatedAt = Some now, sourceFileName = None, items = []\<rparr>,
       runs := [],
       newc := \<lparr>nc_createdAt = None, mode = None, nc_items = []\<rparr>\<rparr>"

section \<open>Replan: generate\<close>

definition salesMap_of :: "item list \<Rightarrow> (string \<times> int) list" where
  "salesMap_of salesParsed = foldl (\<lambda>m it. add_qty (key_of it) (qty it) m) [] salesParsed"

definition gen_line :: "limits_cfg \<Rightarrow> string \<Rightarrow> (string \<times> item) list \<Rightarrow> string \<times> int \<Rightarrow> replan_line option" where
  \<comment> \<open>the body of the loop over \<open>salesMap.entries()\<close>: \<open>None\<close> where it says \<open>continue\<close>\<close>
  "gen_line lims cf stockItems e =
     (let key = fst e; sq = snd e in
      if sq \<le> 0 then None
      else case map_of stockItems key of
        None \<Rightarrow> None
      | Some st \<Rightarrow>
          if cf \<noteq> [] \<and> category st \<noteq> cf then None
          else if qty st - sq \<le> 0 then None
          else
            (let mm = getSkuLimits lims (sku st);
                 pq = clampPull (qty st - sq) (fst mm) (snd mm) in
             if pq \<le> 0 then None
             else Some \<lparr>sku = sku st, color = color st, size' = size' st,
                        category = category st, lineId = key, status = Pending,
                        executedAt = None, stockQty = qty st, salesQty = sq,
                        balance = qty st - sq, pullQty = pq\<rparr>))"

definition line_cmp :: "collation \<Rightarrow> replan_line \<Rightarrow> replan_line \<Rightarrow> int" where
  \<comment> \<open>\<open>(a, b) => (b.balance - a.balance) || String(a.sku).localeCompare(String(b.sku))\<close>\<close>
  "line_cmp collate a b =
     (if balance b - balance a \<noteq> 0 then balance b - balance a
      else collate (sku a) (sku b))"

definition api_replan_generate :: "collation \<Rightarrow> int \<Rightarrow> string \<Rightarrow> string \<Rightarrow> row list \<Rightarrow> state \<Rightarrow> (error + run) \<times> state" where
  \<comment> \<open>POST /api/replan/generate once the sales file is there: the request's category, the
     file's name and its rows; the answer repeats the run. The two readings of the clock,
     for the run id and for \<open>createdAt\<close>, are the one \<open>now\<close>; \<open>collate\<close> is the host's
     \<open>localeCompare\<close>.\<close>
  "api_replan_generate collate now fname category_raw rows s =
     (let cf = trim category_raw;
          stockItems = items (stock s) in
      if updatedAt (stock s) = None \<or> stockItems = [] then (Inl StockEmpty, s)
      else
        (let salesMap = salesMap_of (parseRows rows);
             ls = List.map_filter (gen_line (limits s) cf stockItems) salesMap;
             r = \<lparr>runId = ''RUN-'' @ string_of_int now, createdAt = now,
                  categoryFilter = (if cf = [] then ''All'' else cf),
                  salesFileName = fname, lines = js_sort (line_cmp collate) ls\<rparr>
         in (Inr r, s\<lparr>runs := r # runs s\<rparr>)))"

section \<open>Executing lines\<close>

datatype 'l exec_ok =
  AlreadyExecuted 'l
  | Executed 'l int

definition api_replan_execute :: "int \<Rightarrow> string \<Rightarrow> string \<Rightarrow> state \<Rightarrow> (error + replan_line exec_ok) \<times> state" where
  \<comment> \<open>POST /api/replan/execute with the request's runId and lineId; the state that comes
     back is what the files hold afterwards (nothing is saved on an error)\<close>
  "api_replan_execute now runId_raw lineId_raw s =
     (let rid = trim runId_raw; lid = trim lineId_raw in
      if rid = [] \<or> lid = [] then (Inl MissingParam, s)
      else case List.find (\<lambda>r. runId r = rid) (runs s) of
        None \<Rightarrow> (Inl RunNotFound, s)
      | Some r \<Rightarrow>
         (case List.find (\<lambda>l. lineId l = lid) (lines r) of
            None \<Rightarrow> (Inl LineNotFound, s)
          | Some line \<Rightarrow>
             if status line = Done then (Inr (AlreadyExecuted line), s)
             else case map_of (items (stock s)) lid of
               None \<Rightarrow> (Inl ItemNotInStock, s)
             | Some st \<Rightarrow>
                (let need = pullQty line; have = qty st in
                 if have < need then (Inl (InsufficientStock have need), s)
                 else
                   (let line' = line\<lparr>status := Done, executedAt := Some now\<rparr> in
                    (Inr (Executed line' (have - need)),
                     s\<lparr>stock := (stock s)\<lparr>items :=
                          AList.update lid (st\<lparr>qty := have - need\<rparr>) (items (stock s))\<rparr>,
                       runs := update_first (\<lambda>r. runId r = rid)
                                 (\<lambda>r. r\<lparr>lines := update_first (\<lambda>l. lineId l = lid)
                                                     (\<lambda>l. line') (lines r)\<rparr>)
                                 (runs s)\<rparr>)))))"

definition api_newcollection_execute :: "int \<Rightarrow> string \<Rightarrow> state \<Rightarrow> (error + nc_line exec_ok) \<times> state" where
  \<comment> \<open>POST /api/newcollection/execute\<close>
  "api_newcollection_execute now lineId_raw s =
     (let lid = trim lineId_raw in
      if lid = [] then (Inl MissingParam, s)
      else case List.find (\<lambda>l. lineId l = lid) (nc_items (newc s)) of
        None \<Rightarrow> (Inl LineNotFound, s)
      | Some line \<Rightarrow>
         if status line = Done then (Inr (AlreadyExecuted line), s)
         else case map_of (items (stock s)) lid of
           None \<Rightarrow> (Inl ItemNotInStock, s)
         | Some st \<Rightarrow>
            (let need = nc_qty line; have = qty st in
             if have < need then (Inl (InsufficientStock have need), s)
             else
               (let line' = line\<lparr>status := Done, executedAt := Some now\<rparr> in
                (Inr (Executed line' (have - need)),
                 s\<lparr>stock := (stock s)\<lparr>items :=
                      AList.update lid (st\<lparr>qty := have - need\<rparr>) (items (stock s))\<rparr>,
                   newc := (newc s)\<lparr>nc_items :=
                      update_first (\<lambda>l. lineId l = lid) (\<lambda>l. line') (nc_items (newc s))\<rparr>\<rparr>))))"

datatype failure =
  MissingStock string
  | Insufficient string int int

record 'l bulk =
  b_items :: "(string \<times> item) list"
  b_lines :: "'l list"
  b_executed :: nat
  b_failures :: "failure list"

fun executeAll_loop :: "('l line_head_scheme \<Rightarrow> int) \<Rightarrow> int \<Rightarrow> (string \<times> item) list \<Rightarrow> 'l line_head_scheme list \<Rightarrow> ('l line_head_scheme) bulk" where
  \<comment> \<open>the loop of both executeAll handlers; \<open>need_of\<close> reads \<open>pullQty\<close> or \<open>qty\<close> of a line.
     The ledger changes as the loop goes; \<open>failed\<close> is the length of \<open>failures\<close>.\<close>
  "executeAll_loop need_of now its [] =
     \<lparr>b_items = its, b_lines = [], b_executed = 0, b_failures = []\<rparr>"
| "executeAll_loop need_of now its (line # ls) =
     (if status line = Done then
        (let r = executeAll_loop need_of now its ls in r\<lparr>b_lines := line # b_lines r\<rparr>)
      else case map_of its (lineId line) of
        None \<Rightarrow>
          (let r = executeAll_loop need_of now its ls in
           r\<lparr>b_lines := line # b_lines r,
             b_failures := MissingStock (lineId line) # b_failures r\<rparr>)
      | Some st \<Rightarrow>
          (let need = need_of line; have = qty st in
           if need \<le> 0 then
             (let r = executeAll_loop need_of now its ls in
              r\<lparr>b_lines := line # b_lines r,
                b_failures := MissingStock (lineId line) # b_failures r\<rparr>)
           else if have < need then
             (let r = executeAll_loop need_of now its ls in
              r\<lparr>b_lines := line # b_lines r,
                b_failures := Insufficient (lineId line) have need # b_failures r\<rparr>)
           else
             (let r = executeAll_loop need_of now
                        (AList.update (lineId line) (st\<lparr>qty := have - need\<rparr>) its) ls in
              r\<lparr>b_lines := line\<lparr>status := Done, executedAt := Some now\<rparr> # b_lines r,
                b_executed := Suc (b_executed r)\<rparr>)))"

definition api_replan_executeAll :: "int \<Rightarrow> string \<Rightarrow> state \<Rightarrow> (error + nat \<times> failure list \<times> replan_line list) \<times> state" where
  \<comment> \<open>POST /api/replan/executeAll; the answer is \<open>executed\<close>, \<open>failures\<close> and the lines\<close>
  "api_replan_executeAll now runId_raw s =
     (let rid = trim runId_raw in
      if rid = [] then (Inl MissingParam, s)
      else case List.find (\<lambda>r. runId r = rid) (runs s) of
        None \<Rightarrow> (Inl RunNotFound, s)
      | Some r \<Rightarrow>
         (let b = executeAll_loop pullQty now (items (stock s)) (lines r) in
          (Inr (b_executed b, b_failures b, b_lines b),
           s\<lparr>stock := (stock s)\<lparr>items := b_items b\<rparr>,
             runs := update_first (\<lambda>r. runId r = rid) (\<lambda>r. r\<lparr>lines := b_lines b\<rparr>) (runs s)\<rparr>)))"

definition api_newcollection_executeAll :: "int \<Rightarrow> state \<Rightarrow> (nat \<times> failure list \<times> nc_line list) \<times> state" where
  \<comment> \<open>POST /api/newcollection/executeAll\<close>
  "api_newcollection_executeAll now s =
     (let b = executeAll_loop nc_qty now (items (stock s)) (nc_items (newc s)) in
      ((b_executed b, b_failures b, b_lines b),
       s\<lparr>stock := (stock s)\<lparr>items := b_items b\<rparr>,
         newc := (newc s)\<lparr>nc_items := b_lines b\<rparr>\<rparr>))"

section \<open>Dashboard: stock without a recent pull\<close>

definition skuKey :: "'a cat_key_scheme \<Rightarrow> string" where
  \<comment> \<open>the template \<open>category||sku||size||color\<close>, built from a run line and from a ledger
     item alike\<close>
  "skuKey x = category x @ ''||'' @ sku x @ ''||'' @ size' x @ ''||'' @ color x"

definition note_done :: "string \<Rightarrow> (string \<times> int) list \<Rightarrow> replan_line \<Rightarrow> (string \<times> int) list" where
  \<comment> \<open>what the loop over the lines of the runs does to \<open>lastBySku\<close> for one line\<close>
  "note_done cat m l =
     (case executedAt l of
        None \<Rightarrow> m
      | Some t \<Rightarrow>
          if status l = Done \<and> (cat = [] \<or> category l = cat)
          then AList.update (skuKey l) (max (get_or_zero m (skuKey l)) t) m
          else m)"

definition lastBySku :: "string \<Rightarrow> run list \<Rightarrow> (string \<times> int) list" where
  "lastBySku cat rs = foldl (note_done cat) [] (concat (map lines rs))"

record stale_item = cat_key +
  nr_stockQty :: int
  lastExecutedAt :: "int option"

definition stale_entry :: "int \<Rightarrow> string \<Rightarrow> (string \<times> int) list \<Rightarrow> string \<times> item \<Rightarrow> stale_item option" where
  \<comment> \<open>the body of the loop over \<open>Object.keys(stockItems)\<close>: \<open>None\<close> where nothing is pushed\<close>
  "stale_entry staleCutoff cat lastMap e =
     (let st = snd e in
      if qty st \<le> 0 then None
      else if cat \<noteq> [] \<and> category st \<noteq> cat then None
      else
        (let lst = get_or_zero lastMap (skuKey st) in
         if lst = 0 \<or> lst < staleCutoff
         then Some \<lparr>sku = sku st, color = color st, size' = size' st, category = category st,
                    nr_stockQty = qty st,
                    lastExecutedAt = (if lst \<noteq> 0 then Some lst else None)\<rparr>
         else None))"

definition iso_cmp :: "int option \<Rightarrow> int option \<Rightarrow> int" where
  \<comment> \<open>\<open>(a || "").localeCompare(b || "")\<close> on two \<open>lastExecutedAt\<close>: the empty string comes
     first, and two ISO strings (same width for the years 0000 to 9999) are in the order
     of their times\<close>
  "iso_cmp a b =
     (case (a, b) of
        (None, None) \<Rightarrow> 0
      | (None, Some u) \<Rightarrow> - 1
      | (Some t, None) \<Rightarrow> 1
      | (Some t, Some u) \<Rightarrow> if t < u then - 1 else if u < t then 1 else 0)"

definition stale_cmp :: "stale_item \<Rightarrow> stale_item \<Rightarrow> int" where
  "stale_cmp a b = iso_cmp (lastExecutedAt a) (lastExecutedAt b)"

definition dashboard_noReplan :: "int \<Rightarrow> int option \<Rightarrow> string \<Rightarrow> state \<Rightarrow> stale_item list" where
  \<comment> \<open>the \<open>noReplan\<close> field of GET /api/dashboard: \<open>now\<close> is \<open>Date.now()\<close>, the second argument
     \<open>Number(req.query.staleDays)\<close> (\<open>None\<close> for \<open>NaN\<close>), the third the request's category\<close>
  "dashboard_noReplan now staleDays_raw category_raw s =
     (let staleDays = max (case staleDays_raw of
                             None \<Rightarrow> 14
                           | Some d \<Rightarrow> if d = 0 then 14 else d) 1;
          cat = trim category_raw;
          staleCutoff = now - staleDays * 24 * 3600 * 1000;
          noReplan = List.map_filter (stale_entry staleCutoff cat (lastBySku cat (runs s)))
                       (items (stock s))
      in take 200 (js_sort stale_cmp noReplan))"

section \<open>Quantities the properties speak of\<close>

definition salesTotal :: "item list \<Rightarrow> string \<Rightarrow> int" where
  \<comment> \<open>the summed sales quantity of a key: the sum over the aggregated sales rows with
     that key\<close>
  "salesTotal parsed k = sum_list (map qty (filter (\<lambda>it. key_of it = k) parsed))"

definition ledger_nonneg :: "state \<Rightarrow> bool" where
  \<comment> \<open>no item of the ledger has a negative quantity\<close>
  "ledger_nonneg s = list_all (\<lambda>e. 0 \<le> qty (snd e)) (items (stock s))"

definition rows_nonneg :: "row list \<Rightarrow> bool" where
  \<comment> \<open>no row of an uploaded file has a negative quantity\<close>
  "rows_nonneg rows = list_all (\<lambda>r. case snd r of None \<Rightarrow> True | Some q \<Rightarrow> 0 \<le> q) rows"

definition taken :: "('l line_head_scheme \<Rightarrow> int) \<Rightarrow> string \<Rightarrow> 'l line_head_scheme list \<Rightarrow> 'l line_head_scheme list \<Rightarrow> int" where
  \<comment> \<open>what a bulk execution took from key \<open>k\<close>: the needs of the lines of \<open>k\<close> that went
     from Pending to Done, given the lines before and after\<close>
  "taken need_of k before after =
     sum_list (map (\<lambda>p. if lineId (fst p) = k \<and> status (fst p) = Pending \<and> status (snd p) = Done
                         then need_of (fst p) else 0) (zip before after))"

definition done_times :: "string \<Rightarrow> run list \<Rightarrow> string \<Rightarrow> int list" where
  \<comment> \<open>the times of the Done executions recorded under the key \<open>k\<close>
     (category, SKU, size and colour joined as skuKey does) in all the runs, among the lines
     of the filter category when one is set\<close>
  "done_times cat rs k =
     List.map_filter
       (\<lambda>l. if status l = Done \<and> (cat = [] \<or> category l = cat) \<and> skuKey l = k
            then executedAt l else None)
       (concat (map lines rs))"

definition last_done :: "string \<Rightarrow> run list \<Rightarrow> string \<Rightarrow> int" where
  \<comment> \<open>the latest of these times, and 0 when there is none\<close>
  "last_done cat rs k = fold max (done_times cat rs k) 0"

definition stale_days :: "int option \<Rightarrow> int" where
  \<comment> \<open>\<open>Math.max(Number(req.query.staleDays) || 14, 1)\<close>\<close>
  "stale_days raw = max (case raw of None \<Rightarrow> 14 | Some d \<Rightarrow> if d = 0 then 14 else d) 1"

definition is_stale :: "int \<Rightarrow> int option \<Rightarrow> string \<Rightarrow> run list \<Rightarrow> item \<Rightarrow> bool" where
  \<comment> \<open>a ledger item that belongs in \<open>noReplan\<close>: in stock, of the filter category when one
     is set, and with no execution, or a last one before \<open>now\<close> minus the stale days\<close>
  "is_stale now raw cat rs st =
     (0 < qty st \<and> (cat = [] \<or> category st = cat) \<and>
      (last_done cat rs (skuKey st) = 0 \<or>
       last_done cat rs (skuKey st) < now - stale_days raw * 24 * 3600 * 1000))"

definition stale_item_of :: "string \<Rightarrow> run list \<Rightarrow> item \<Rightarrow> stale_item" where
  \<comment> \<open>its entry in the list\<close>
  "stale_item_of cat rs st =
     \<lparr>sku = sku st, color = color st, size' = size' st, category = category st,
      nr_stockQty = qty st,
      lastExecutedAt = (if last_done cat rs (skuKey st) = 0 then None
                        else Some (last_done cat rs (skuKey st)))\<rparr>"

definition inventory_key_times :: "run list \<Rightarrow> string \<Rightarrow> string \<Rightarrow> string \<Rightarrow> int list" where
  \<comment> \<open>Claim C6 in its own words: the times of the Done executions of the inventory key
     (SKU, size, colour) in all the runs, whatever category the lines carry\<close>
  "inventory_key_times rs k z c =
     List.map_filter
       (\<lambda>l. if status l = Done \<and> sku l = k \<and> size' l = z \<and> color l = c
            then executedAt l else None)
       (concat (map lines rs))"

section \<open>A small shop\<close>

text \<open>
  A stock report and a sales report, and the states they lead to: the ledger after the
  upload (with the default limits set to min 1, max 3) and the run that the sales report
  generates. The theorems below are applied to them.
\<close>

definition demo_stock_rows :: "row list" where
  "demo_stock_rows =
     [(''Dresses'', None), (''Quantity'', None),
      (''[123] Dress (M, Red)'', Some 10), (''[123] Dress (Red, L)'', Some 4),
      (''Accessories'', None), (''[77] Hat'', Some 0), (''[5] Sock (Blue)'', Some 6)]"

definition demo_sales_rows :: "row list" where
  "demo_sales_rows =
     [(''Dresses'', None), (''[123] Dress (M, Red)'', Some 3), (''[123] Dress (M, Red)'', Some 1),
      (''[123] Dress (L, Red)'', Some 0), (''[5] Sock (Blue)'', Some 2), (''[9] Scarf'', Some 1)]"

definition demo_ledger :: state where
  "demo_ledger =
     api_stock_update 1000 ''stock.xlsx'' demo_stock_rows
       (initial_state\<lparr>limits := \<lparr>defaultMin = Some 1, defaultMax = Some 3, skus = []\<rparr>\<rparr>)"

definition demo_run :: run where
  "demo_run =
     \<lparr>runId = ''RUN-2000'', createdAt = 2000, categoryFilter = ''All'',
      salesFileName = ''sales.xlsx'',
      lines =
        [\<lparr>sku = ''123'', color = ''Red'', size' = ''M'', category = ''Dresses'',
          lineId = ''123||M||Red'', status = Pending, executedAt = None, stockQty = 10,
          salesQty = 4, balance = 6, pullQty = 3\<rparr>,
         \<lparr>sku = ''5'', color = ''Blue'', size' = [], category = ''Accessories'',
          lineId = ''5||||Blue'', status = Pending, executedAt = None, stockQty = 6,
          salesQty = 2, balance = 4, pullQty = 3\<rparr>]\<rparr>"

definition demo_planned :: state where
  "demo_planned = snd (api_replan_generate codeunit_compare 2000 ''sales.xlsx'' [] demo_sales_rows demo_ledger)"

definition demo_executed :: state where
  \<comment> \<open>the first line of the run, executed\<close>
  "demo_executed = snd (api_replan_execute 3000 ''RUN-2000'' ''123||M||Red'' demo_planned)"

definition demo_drained :: state where
  \<comment> \<open>the same sales report generates two more runs before anything is executed; then the
     sock line of the first two runs is executed, which takes the 6 socks in stock\<close>
  "demo_drained =
     (let s1 = snd (api_replan_generate codeunit_compare 2001 ''sales.xlsx'' [] demo_sales_rows demo_planned);
          s2 = snd (api_replan_generate codeunit_compare 2002 ''sales.xlsx'' [] demo_sales_rows s1);
          s3 = snd (api_replan_execute 3000 ''RUN-2000'' ''5||||Blue'' s2)
      in snd (api_replan_execute 3001 ''RUN-2001'' ''5||||Blue'' s3))"

definition demo_restock_rows :: "row list" where
  \<comment> \<open>a later stock report: two more dresses, and scarves, which are new\<close>
  "demo_restock_rows =
     [(''Dresses'', None), (''[123] Dress (M, Red)'', Some 12), (''[123] Dress (Red, L)'', Some 4),
      (''Accessories'', None), (''[77] Hat'', Some 0), (''[5] Sock (Blue)'', Some 6),
      (''[8] Scarf'', Some 2)]"

definition demo_restocked :: state where
  "demo_restocked = api_stock_update 6000 ''stock2.xlsx'' demo_restock_rows demo_ledger"

definition demo_recat_rows :: "row list" where
  \<comment> \<open>a later stock report that lists the dresses and the socks under a new heading\<close>
  "demo_recat_rows =
     [(''Sale'', None), (''[123] Dress (M, Red)'', Some 7), (''[5] Sock (Blue)'', Some 6)]"

definition demo_recat :: state where
  "demo_recat = api_stock_update 4000 ''stock3.xlsx'' demo_recat_rows demo_executed"





definition demo_negative :: state where
  \<comment> \<open>the ledger after a stock report with a negative quantity\<close>
  "demo_negative =
     api_stock_update 1000 ''stock.xlsx''
       [(''Dresses'', None), (''[123] Dress (M, Red)'', Some (- 5)), (''[5] Sock (Blue)'', Some 6)]
       initial_state"

section \<open>Properties of the parser\<close>



section \<open>Properties of the limits\<close>

text \<open>
  Claim C5, at the input where the code departs from it. A default of 0 can be configured:
  the setDefault handler stores it. For a SKU without an override getSkuLimits then
  returns (1, 1) and not (0, 0), because \<open>defaultMin || 1\<close> reads 0 as missing. An override
  of 0 for the SKU itself is returned as 0.
\<close>

theorem getSkuLimits_zero_default:
  "api_limits_setDefault (Some 0) (Some 0) default_limits
     = Inr \<lparr>defaultMin = Some 0, defaultMax = Some 0, skus = []\<rparr>
   \<and> getSkuLimits \<lparr>defaultMin = Some 0, defaultMax = Some 0, skus = []\<rparr> ''123'' = (1, 1)
   \<and> getSkuLimits \<lparr>defaultMin = Some 1, defaultMax = Some 1,
                     skus = [(''123'', \<lparr>min' = Some 0, max' = Some 0\<rparr>)]\<rparr> ''123'' = (0, 0)"
  by (simp add: api_limits_setDefault_def default_limits_def getSkuLimits_def or_one_def)

section \<open>Sorting with a comparator\<close>

lemma set_insert_by: "set (insert_by cmp x ys) = insert x (set ys)"
  by (induction ys) auto

lemma set_js_sort: "set (js_sort cmp xs) = set xs"
  by (induction xs) (auto simp: js_sort_def set_insert_by)

lemma length_insert_by: "length (insert_by cmp x ys) = Suc (length ys)"
  by (induction ys) auto

lemma length_js_sort: "length (js_sort cmp xs) = length xs"
  by (induction xs) (auto simp: js_sort_def length_insert_by)



lemma sorted_insert_by:
  assumes total: "\<And>a b. cmp a b \<le> 0 \<or> cmp b a \<le> 0"
    and trans: "\<And>a b c. cmp a b \<le> 0 \<Longrightarrow> cmp b c \<le> 0 \<Longrightarrow> cmp a c \<le> 0"
    and srt: "sorted_wrt (\<lambda>a b. cmp a b \<le> 0) ys"
  shows "sorted_wrt (\<lambda>a b. cmp a b \<le> 0) (insert_by cmp x ys)"
  using srt
proof (induction ys)
  case Nil
  show ?case by simp
next
  case (Cons y ys)
  show ?case
  proof (cases "cmp x y \<le> 0")
    case True
    with Cons.prems trans have "\<forall>z\<in>set (y # ys). cmp x z \<le> 0" by auto
    with True Cons.prems show ?thesis by simp
  next
    case False
    with total have "cmp y x \<le> 0" by blast
    with False Cons show ?thesis by (auto simp: set_insert_by)
  qed
qed

lemma sorted_js_sort:
  assumes total: "\<And>a b. cmp a b \<le> 0 \<or> cmp b a \<le> 0"
    and trans: "\<And>a b c. cmp a b \<le> 0 \<Longrightarrow> cmp b c \<le> 0 \<Longrightarrow> cmp a c \<le> 0"
  shows "sorted_wrt (\<lambda>a b. cmp a b \<le> 0) (js_sort cmp xs)"
proof (induction xs)
  case Nil
  show ?case by (simp add: js_sort_def)
next
  case (Cons x xs)
  have "js_sort cmp (x # xs) = insert_by cmp x (js_sort cmp xs)"
    by (simp add: js_sort_def)
  with Cons sorted_insert_by [of cmp, OF total trans] show ?case by simp
qed

section \<open>The order of the lines of a run\<close>

lemma codeunit_compare_sign: "codeunit_compare x y < 0 \<longleftrightarrow> 0 < codeunit_compare y x"
  by (induction x y rule: codeunit_compare.induct) auto

lemma codeunit_compare_trans:
  "codeunit_compare x y \<le> 0 \<Longrightarrow> codeunit_compare y z \<le> 0 \<Longrightarrow> codeunit_compare x z \<le> 0"
proof (induction x arbitrary: y z)
  case Nil
  then show ?case by (cases z) auto
next
  case (Cons a x)
  show ?case
  proof (cases y)
    case Nil
    with Cons.prems show ?thesis by simp
  next
    case y: (Cons b y')
    show ?thesis
    proof (cases z)
      case Nil
      with Cons.prems y show ?thesis by simp
    next
      case z: (Cons c z')
      from Cons.prems y z Cons.IH [of y' z'] show ?thesis
        by (auto split: if_splits)
    qed
  qed
qed


lemma consistent_fold_case_compare: "consistent fold_case_compare"
  unfolding consistent_def fold_case_compare_def
  using codeunit_compare_sign codeunit_compare_trans by blast

lemma codeunit_compare_lexord:
  "codeunit_compare x y \<le> 0 \<longleftrightarrow> x = y \<or> (x, y) \<in> lexord {(a, b). (of_char a :: nat) < of_char b}"
proof (induction x y rule: codeunit_compare.induct)
  case 1
  show ?case by simp
next
  case (2 y ys)
  show ?case by simp
next
  case (3 x xs)
  show ?case by simp
next
  case (4 x xs y ys)
  show ?case
  proof (cases "(of_char x :: nat) < of_char y")
    case True
    then show ?thesis by auto
  next
    case nlt: False
    show ?thesis
    proof (cases "(of_char y :: nat) < of_char x")
      case True
      with nlt show ?thesis by auto
    next
      case False
      with nlt have "(of_char x :: nat) = of_char y" by simp
      then have "x = y" by simp
      with nlt False "4.IH" show ?thesis by simp
    qed
  qed
qed






section \<open>The sales map\<close>

lemma get_or_zero_add_qty:
  "get_or_zero (add_qty k q m) k' = (if k' = k then get_or_zero m k + q else get_or_zero m k')"
  by (simp add: get_or_zero_def add_qty_def update_conv')

lemma keys_add_qty: "fst ` set (add_qty k q m) = insert k (fst ` set m)"
  by (simp add: add_qty_def dom_update)

lemma distinct_add_qty: "distinct (map fst m) \<Longrightarrow> distinct (map fst (add_qty k q m))"
  by (simp add: add_qty_def distinct_update)

lemma foldl_add_qty:
  "get_or_zero (foldl (\<lambda>m it. add_qty (key_of it) (qty it) m) m xs) k
     = get_or_zero m k + salesTotal xs k
   \<and> fst ` set (foldl (\<lambda>m it. add_qty (key_of it) (qty it) m) m xs)
     = fst ` set m \<union> key_of ` set xs
   \<and> (distinct (map fst m) \<longrightarrow>
        distinct (map fst (foldl (\<lambda>m it. add_qty (key_of it) (qty it) m) m xs)))"
proof (induction xs arbitrary: m)
  case Nil
  show ?case by (simp add: salesTotal_def)
next
  case (Cons x xs)
  show ?case
    using Cons [of "add_qty (key_of x) (qty x) m"]
    by (auto simp: get_or_zero_add_qty keys_add_qty distinct_add_qty salesTotal_def)
qed

lemma salesMap_of_entry:
  "(k, v) \<in> set (salesMap_of parsed) \<longleftrightarrow> k \<in> key_of ` set parsed \<and> v = salesTotal parsed k"
proof -
  let ?m = "salesMap_of parsed"
  from foldl_add_qty [of "[]" parsed k]
  have g: "get_or_zero ?m k = salesTotal parsed k"
    and d: "fst ` set ?m = key_of ` set parsed"
    and dist: "distinct (map fst ?m)"
    by (simp_all add: salesMap_of_def get_or_zero_def)
  show ?thesis
  proof
    assume "(k, v) \<in> set ?m"
    with dist have "map_of ?m k = Some v" by simp
    with g have "v = salesTotal parsed k" by (simp add: get_or_zero_def)
    moreover from \<open>(k, v) \<in> set ?m\<close> d have "k \<in> key_of ` set parsed" by force
    ultimately show "k \<in> key_of ` set parsed \<and> v = salesTotal parsed k" by simp
  next
    assume a: "k \<in> key_of ` set parsed \<and> v = salesTotal parsed k"
    with d have "k \<in> fst ` set ?m" by simp
    then obtain w where w: "(k, w) \<in> set ?m" by force
    with dist have "map_of ?m k = Some w" by simp
    with g a have "w = v" by (simp add: get_or_zero_def)
    with w show "(k, v) \<in> set ?m" by simp
  qed
qed


section \<open>Generated runs\<close>

lemma gen_line_Some:
  "gen_line lims cf its (k, v) = Some l \<longleftrightarrow>
     0 < v \<and>
     (\<exists>st. map_of its k = Some st \<and> (cf = [] \<or> category st = cf) \<and> 0 < qty st - v \<and>
        0 < clampPull (qty st - v) (fst (getSkuLimits lims (sku st))) (snd (getSkuLimits lims (sku st))) \<and>
        l = \<lparr>sku = sku st, color = color st, size' = size' st, category = category st,
             lineId = k, status = Pending, executedAt = None, stockQty = qty st,
             salesQty = v, balance = qty st - v,
             pullQty = clampPull (qty st - v) (fst (getSkuLimits lims (sku st)))
                         (snd (getSkuLimits lims (sku st)))\<rparr>)"
  by (auto simp: gen_line_def Let_def split: option.splits)

lemma clampPull_le: "0 < b \<Longrightarrow> clampPull b mn mx \<le> b"
  by (simp add: clampPull_def)

lemma set_map_filter: "set (List.map_filter f xs) = {y. \<exists>x\<in>set xs. f x = Some y}"
  by (induction xs) (auto split: option.splits)


lemma generate_result:
  assumes "fst (api_replan_generate collate now fname cat rows s) = Inr r"
  shows "lines r = js_sort (line_cmp collate)
           (List.map_filter (gen_line (limits s) (trim cat) (items (stock s)))
              (salesMap_of (parseRows rows)))"
  using assms by (auto simp: api_replan_generate_def Let_def split: if_splits)


lemma generated_line:
  assumes "fst (api_replan_generate collate now fname cat rows s) = Inr r"
  shows "l \<in> set (lines r) \<longleftrightarrow>
     (\<exists>k \<in> key_of ` set (parseRows rows).
        gen_line (limits s) (trim cat) (items (stock s)) (k, salesTotal (parseRows rows) k) = Some l)"
proof -
  have "l \<in> set (lines r) \<longleftrightarrow>
      (\<exists>e \<in> set (salesMap_of (parseRows rows)).
         gen_line (limits s) (trim cat) (items (stock s)) e = Some l)"
    by (simp add: generate_result [OF assms] set_js_sort set_map_filter)
  also have "\<dots> \<longleftrightarrow> (\<exists>k v. (k, v) \<in> set (salesMap_of (parseRows rows)) \<and>
         gen_line (limits s) (trim cat) (items (stock s)) (k, v) = Some l)"
    by auto
  also have "\<dots> \<longleftrightarrow> (\<exists>k \<in> key_of ` set (parseRows rows).
        gen_line (limits s) (trim cat) (items (stock s)) (k, salesTotal (parseRows rows) k) = Some l)"
    by (simp add: salesMap_of_entry Bex_def)
  finally show ?thesis .
qed



text \<open>The small shop, evaluated.\<close>

lemma demo_ledger_eq [code]: "demo_ledger = \<lparr>stock =
    \<lparr>updatedAt = Some 1000, sourceFileName = Some ''stock.xlsx'',
       items =
         [(''123||M||Red'',
           \<lparr>sku = ''123'', color = ''Red'', size' = ''M'',
              category = ''Dresses'', qty = 10\<rparr>),
          (''123||L||Red'',
           \<lparr>sku = ''123'', color = ''Red'', size' = ''L'',
              category = ''Dresses'', qty = 4\<rparr>),
          (''77||||'',
           \<lparr>sku = ''77'', color = [], size' = [], category = ''Accessories'',
              qty = 0\<rparr>),
          (''5||||Blue'',
           \<lparr>sku = ''5'', color = ''Blue'', size' = [],
              category = ''Accessories'', qty = 6\<rparr>)]\<rparr>,
    runs = [],
    newc =
      \<lparr>nc_createdAt = Some 1000, mode = Some BASE_PENDING_ALL,
         nc_items =
           [\<lparr>sku = ''123'', color = ''Red'', size' = ''M'',
               category = ''Dresses'', lineId = ''123||M||Red'',
               status = Pending, executedAt = None, nc_qty = 1\<rparr>,
            \<lparr>sku = ''123'', color = ''Red'', size' = ''L'',
               category = ''Dresses'', lineId = ''123||L||Red'',
               status = Pending, executedAt = None, nc_qty = 1\<rparr>,
            \<lparr>sku = ''5'', color = ''Blue'', size' = [],
               category = ''Accessories'', lineId = ''5||||Blue'',
               status = Pending, executedAt = None, nc_qty = 1\<rparr>]\<rparr>,
    limits = \<lparr>defaultMin = Some 1, defaultMax = Some 3, skus = []\<rparr>\<rparr>"
  by code_simp

lemma demo_generate:
  "api_replan_generate codeunit_compare 2000 ''sales.xlsx'' [] demo_sales_rows demo_ledger
     = (Inr demo_run, demo_ledger\<lparr>runs := [demo_run]\<rparr>)"
  by code_simp

lemma demo_planned_eq [code]: "demo_planned = demo_ledger\<lparr>runs := [demo_run]\<rparr>"
  by (simp add: demo_planned_def demo_generate)

text \<open>
  Claim C8. Every line of a generated run has \<open>pullQty \<le> balance \<le> stockQty\<close>, with the
  three quantities as the line records them.
\<close>

theorem generated_pull_le_balance_le_stock:
  assumes "fst (api_replan_generate collate now fname cat rows s) = Inr r"
    and "l \<in> set (lines r)"
  shows "pullQty l \<le> balance l \<and> balance l \<le> stockQty l"
proof -
  from assms obtain k where
    "gen_line (limits s) (trim cat) (items (stock s)) (k, salesTotal (parseRows rows) k) = Some l"
    by (auto simp: generated_line)
  then show ?thesis
    unfolding gen_line_Some
    by (auto simp: clampPull_le)
qed

text \<open>The first line of the small shop's run: 3 \<le> 6 \<le> 10.\<close>

theorem generated_pull_le_balance_le_stock_witness:
  "fst (api_replan_generate codeunit_compare 2000 ''sales.xlsx'' [] demo_sales_rows demo_ledger) = Inr demo_run
   \<and> lines demo_run ! 0 \<in> set (lines demo_run)
   \<and> pullQty (lines demo_run ! 0) = 3 \<and> balance (lines demo_run ! 0) = 6
   \<and> stockQty (lines demo_run ! 0) = 10
   \<and> pullQty (lines demo_run ! 0) \<le> balance (lines demo_run ! 0)
   \<and> balance (lines demo_run ! 0) \<le> stockQty (lines demo_run ! 0)"
proof -
  have a: "fst (api_replan_generate codeunit_compare 2000 ''sales.xlsx'' [] demo_sales_rows demo_ledger) = Inr demo_run"
    by (simp add: demo_generate)
  have b: "lines demo_run ! 0 \<in> set (lines demo_run)" by (simp add: demo_run_def)
  have c: "pullQty (lines demo_run ! 0) = 3 \<and> balance (lines demo_run ! 0) = 6
     \<and> stockQty (lines demo_run ! 0) = 10" by (simp add: demo_run_def)
  from generated_pull_le_balance_le_stock [OF a b] a b c show ?thesis by blast
qed

text \<open>
  Claim C10. A key whose summed sales quantity is not positive gets no line, whatever the
  ledger holds for it; so every line of a generated run has a positive \<open>salesQty\<close>, and
  its balance is strictly below its stock quantity.
\<close>

theorem generate_skips_nonpositive_sales:
  assumes "fst (api_replan_generate collate now fname cat rows s) = Inr r"
  shows "(salesTotal (parseRows rows) k \<le> 0 \<longrightarrow> k \<notin> lineId ` set (lines r))
       \<and> (\<forall>l\<in>set (lines r). 0 < salesQty l \<and> balance l < stockQty l)"
proof (intro conjI impI ballI)
  assume nonpos: "salesTotal (parseRows rows) k \<le> 0"
  show "k \<notin> lineId ` set (lines r)"
  proof
    assume "k \<in> lineId ` set (lines r)"
    then obtain l where l: "l \<in> set (lines r)" "lineId l = k" by auto
    then obtain k' where
      g: "gen_line (limits s) (trim cat) (items (stock s)) (k', salesTotal (parseRows rows) k') = Some l"
      by (auto simp: generated_line [OF assms])
    then have "lineId l = k'" "0 < salesTotal (parseRows rows) k'"
      unfolding gen_line_Some by auto
    with l nonpos show False by simp
  qed
next
  fix l assume "l \<in> set (lines r)"
  then obtain k where
    "gen_line (limits s) (trim cat) (items (stock s)) (k, salesTotal (parseRows rows) k) = Some l"
    by (auto simp: generated_line [OF assms])
  then show "0 < salesQty l" "balance l < stockQty l"
    unfolding gen_line_Some by auto
qed

text \<open>
  In the small shop the key 123||L||Red is sold 0 times and has 4 in stock: no line. The
  first line of the run has positive sales.
\<close>

theorem generate_skips_nonpositive_sales_witness:
  "fst (api_replan_generate codeunit_compare 2000 ''sales.xlsx'' [] demo_sales_rows demo_ledger) = Inr demo_run
   \<and> salesTotal (parseRows demo_sales_rows) ''123||L||Red'' \<le> 0
   \<and> map_of (items (stock demo_ledger)) ''123||L||Red''
       = Some \<lparr>sku = ''123'', color = ''Red'', size' = ''L'', category = ''Dresses'', qty = 4\<rparr>
   \<and> ''123||L||Red'' \<notin> lineId ` set (lines demo_run)
   \<and> lines demo_run ! 0 \<in> set (lines demo_run)
   \<and> 0 < salesQty (lines demo_run ! 0)
   \<and> balance (lines demo_run ! 0) < stockQty (lines demo_run ! 0)"
proof -
  have a: "fst (api_replan_generate codeunit_compare 2000 ''sales.xlsx'' [] demo_sales_rows demo_ledger) = Inr demo_run"
    by (simp add: demo_generate)
  have b: "salesTotal (parseRows demo_sales_rows) ''123||L||Red'' \<le> 0" by code_simp
  have c: "map_of (items (stock demo_ledger)) ''123||L||Red''
       = Some \<lparr>sku = ''123'', color = ''Red'', size' = ''L'', category = ''Dresses'', qty = 4\<rparr>"
    by (simp add: demo_ledger_eq)
  have d: "lines demo_run ! 0 \<in> set (lines demo_run)" by (simp add: demo_run_def)
  from generate_skips_nonpositive_sales [OF a, of "''123||L||Red''"] b
  have e: "''123||L||Red'' \<notin> lineId ` set (lines demo_run)" by blast
  from generate_skips_nonpositive_sales [OF a, of "''123||L||Red''"] d
  have f: "0 < salesQty (lines demo_run ! 0) \<and> balance (lines demo_run ! 0) < stockQty (lines demo_run ! 0)"
    by blast
  from a b c d e f show ?thesis by blast
qed




section \<open>Executing one line\<close>

lemma find_update_first:
  "List.find P xs = Some x \<Longrightarrow> P (f x) \<Longrightarrow> List.find P (update_first P f xs) = Some (f x)"
  by (induction xs) (auto split: if_splits)

lemma find_Some_P: "List.find P xs = Some x \<Longrightarrow> P x"
  by (induction xs) (auto split: if_splits)

lemma map_of_update_other: "k' \<noteq> k \<Longrightarrow> map_of (AList.update k v al) k' = map_of al k'"
  by (simp add: update_conv')

lemma map_of_update_same: "map_of (AList.update k v al) k = Some v"
  by (simp add: update_conv')

lemma replan_execute_pending:
  assumes "trim runId_raw \<noteq> []" and "trim lineId_raw \<noteq> []"
    and "List.find (\<lambda>r. runId r = trim runId_raw) (runs s) = Some r"
    and "List.find (\<lambda>l. lineId l = trim lineId_raw) (lines r) = Some line"
    and "status line = Pending"
  shows "(case map_of (items (stock s)) (trim lineId_raw) of
           None \<Rightarrow> api_replan_execute now runId_raw lineId_raw s = (Inl ItemNotInStock, s)
         | Some st \<Rightarrow>
             if qty st < pullQty line
             then api_replan_execute now runId_raw lineId_raw s
                    = (Inl (InsufficientStock (qty st) (pullQty line)), s)
             else (\<exists>s'. api_replan_execute now runId_raw lineId_raw s
                      = (Inr (Executed (line\<lparr>status := Done, executedAt := Some now\<rparr>)
                                (qty st - pullQty line)), s')
                    \<and> map_of (items (stock s')) (trim lineId_raw)
                        = Some (st\<lparr>qty := qty st - pullQty line\<rparr>)
                    \<and> (\<forall>k. k \<noteq> trim lineId_raw \<longrightarrow>
                          map_of (items (stock s')) k = map_of (items (stock s)) k)
                    \<and> (\<exists>r'. List.find (\<lambda>r. runId r = trim runId_raw) (runs s') = Some r'
                          \<and> List.find (\<lambda>l. lineId l = trim lineId_raw) (lines r')
                              = Some (line\<lparr>status := Done, executedAt := Some now\<rparr>))
                    \<and> newc s' = newc s \<and> limits s' = limits s))"
proof (cases "map_of (items (stock s)) (trim lineId_raw)")
  case None
  with assms show ?thesis by (simp add: api_replan_execute_def Let_def)
next
  case (Some st)
  show ?thesis
  proof (cases "qty st < pullQty line")
    case True
    with Some assms show ?thesis by (simp add: api_replan_execute_def Let_def)
  next
    case False
    let ?line' = "line\<lparr>status := Done, executedAt := Some now\<rparr>"
    let ?r' = "r\<lparr>lines := update_first (\<lambda>l. lineId l = trim lineId_raw) (\<lambda>l. ?line') (lines r)\<rparr>"
    from assms(4) have lid: "lineId line = trim lineId_raw" by (rule find_Some_P)
    from assms(3) have rid: "runId r = trim runId_raw" by (rule find_Some_P)
    have fl: "List.find (\<lambda>l. lineId l = trim lineId_raw) (lines ?r') = Some ?line'"
      using find_update_first [OF assms(4), of "\<lambda>l. ?line'"] lid by simp
    have fr: "List.find (\<lambda>r. runId r = trim runId_raw)
                (update_first (\<lambda>r. runId r = trim runId_raw)
                   (\<lambda>r. r\<lparr>lines := update_first (\<lambda>l. lineId l = trim lineId_raw) (\<lambda>l. ?line') (lines r)\<rparr>)
                   (runs s)) = Some ?r'"
      using find_update_first [OF assms(3),
          of "\<lambda>r. r\<lparr>lines := update_first (\<lambda>l. lineId l = trim lineId_raw) (\<lambda>l. ?line') (lines r)\<rparr>"] rid
      by simp
    from False Some assms fl fr show ?thesis
      by (simp add: api_replan_execute_def Let_def map_of_update_same map_of_update_other)
  qed
qed

lemma newcollection_execute_pending:
  assumes "trim lineId_raw \<noteq> []"
    and "List.find (\<lambda>l. lineId l = trim lineId_raw) (nc_items (newc s)) = Some line"
    and "status line = Pending"
  shows "(case map_of (items (stock s)) (trim lineId_raw) of
           None \<Rightarrow> api_newcollection_execute now lineId_raw s = (Inl ItemNotInStock, s)
         | Some st \<Rightarrow>
             if qty st < nc_qty line
             then api_newcollection_execute now lineId_raw s
                    = (Inl (InsufficientStock (qty st) (nc_qty line)), s)
             else (\<exists>s'. api_newcollection_execute now lineId_raw s
                      = (Inr (Executed (line\<lparr>status := Done, executedAt := Some now\<rparr>)
                                (qty st - nc_qty line)), s')
                    \<and> map_of (items (stock s')) (trim lineId_raw)
                        = Some (st\<lparr>qty := qty st - nc_qty line\<rparr>)
                    \<and> (\<forall>k. k \<noteq> trim lineId_raw \<longrightarrow>
                          map_of (items (stock s')) k = map_of (items (stock s)) k)
                    \<and> List.find (\<lambda>l. lineId l = trim lineId_raw) (nc_items (newc s'))
                        = Some (line\<lparr>status := Done, executedAt := Some now\<rparr>)
                    \<and> runs s' = runs s \<and> limits s' = limits s))"
proof (cases "map_of (items (stock s)) (trim lineId_raw)")
  case None
  with assms show ?thesis by (simp add: api_newcollection_execute_def Let_def)
next
  case (Some st)
  show ?thesis
  proof (cases "qty st < nc_qty line")
    case True
    with Some assms show ?thesis by (simp add: api_newcollection_execute_def Let_def)
  next
    case False
    let ?line' = "line\<lparr>status := Done, executedAt := Some now\<rparr>"
    from assms(2) have lid: "lineId line = trim lineId_raw" by (rule find_Some_P)
    have fl: "List.find (\<lambda>l. lineId l = trim lineId_raw)
                (update_first (\<lambda>l. lineId l = trim lineId_raw) (\<lambda>l. ?line') (nc_items (newc s)))
              = Some ?line'"
      using find_update_first [OF assms(2), of "\<lambda>l. ?line'"] lid by simp
    from False Some assms fl show ?thesis
      by (simp add: api_newcollection_execute_def Let_def map_of_update_same map_of_update_other)
  qed
qed

lemma replan_execute_done:
  assumes "trim runId_raw \<noteq> []" and "trim lineId_raw \<noteq> []"
    and "List.find (\<lambda>r. runId r = trim runId_raw) (runs s) = Some r"
    and "List.find (\<lambda>l. lineId l = trim lineId_raw) (lines r) = Some line"
    and "status line = Done"
  shows "api_replan_execute now runId_raw lineId_raw s = (Inr (AlreadyExecuted line), s)"
  using assms by (simp add: api_replan_execute_def Let_def)

lemma newcollection_execute_done:
  assumes "trim lineId_raw \<noteq> []"
    and "List.find (\<lambda>l. lineId l = trim lineId_raw) (nc_items (newc s)) = Some line"
    and "status line = Done"
  shows "api_newcollection_execute now lineId_raw s = (Inr (AlreadyExecuted line), s)"
  using assms by (simp add: api_newcollection_execute_def Let_def)

lemma stock_update_unit_lines:
  "l \<in> set (nc_items (newc (api_stock_update now fname rows s))) \<Longrightarrow>
     nc_qty l = 1 \<and> status l = Pending \<and> executedAt l = None"
  by (auto simp: api_stock_update_def Let_def nc_line_of_def split: if_splits)

lemma replan_execute_InrD:
  assumes "fst (api_replan_execute now rr lr s) = Inr ok"
  shows "trim rr \<noteq> [] \<and> trim lr \<noteq> [] \<and>
     (\<exists>r line. List.find (\<lambda>r. runId r = trim rr) (runs s) = Some r \<and>
        List.find (\<lambda>l. lineId l = trim lr) (lines r) = Some line \<and>
        (status line = Done \<or>
         status line = Pending \<and>
           (\<exists>st. map_of (items (stock s)) (trim lr) = Some st \<and> \<not> qty st < pullQty line)))"
  using assms
  by (auto simp: api_replan_execute_def Let_def split: if_splits option.splits
      intro: status.exhaust)

lemma newcollection_execute_InrD:
  assumes "fst (api_newcollection_execute now lr s) = Inr ok"
  shows "trim lr \<noteq> [] \<and>
     (\<exists>line. List.find (\<lambda>l. lineId l = trim lr) (nc_items (newc s)) = Some line \<and>
        (status line = Done \<or>
         status line = Pending \<and>
           (\<exists>st. map_of (items (stock s)) (trim lr) = Some st \<and> \<not> qty st < nc_qty line)))"
  using assms
  by (auto simp: api_newcollection_execute_def Let_def split: if_splits option.splits
      intro: status.exhaust)

lemma replan_execute_twice:
  assumes "fst (api_replan_execute now rr lr s) = Inr ok"
  shows "\<exists>l. api_replan_execute now' rr lr (snd (api_replan_execute now rr lr s))
            = (Inr (AlreadyExecuted l), snd (api_replan_execute now rr lr s))
          \<and> status l = Done"
proof -
  from replan_execute_InrD [OF assms] obtain r line where
    p: "trim rr \<noteq> []" "trim lr \<noteq> []"
      "List.find (\<lambda>r. runId r = trim rr) (runs s) = Some r"
      "List.find (\<lambda>l. lineId l = trim lr) (lines r) = Some line"
    and c: "status line = Done \<or>
         status line = Pending \<and>
           (\<exists>st. map_of (items (stock s)) (trim lr) = Some st \<and> \<not> qty st < pullQty line)"
    by blast
  from c show ?thesis
  proof
    assume d: "status line = Done"
    from replan_execute_done [OF p d] show ?thesis using d by simp
  next
    assume "status line = Pending \<and>
           (\<exists>st. map_of (items (stock s)) (trim lr) = Some st \<and> \<not> qty st < pullQty line)"
    then obtain st where pend: "status line = Pending"
      and st: "map_of (items (stock s)) (trim lr) = Some st" "\<not> qty st < pullQty line"
      by blast
    from replan_execute_pending [OF p pend, of now] st
    obtain s' r' where
      s': "api_replan_execute now rr lr s
             = (Inr (Executed (line\<lparr>status := Done, executedAt := Some now\<rparr>)
                   (qty st - pullQty line)), s')"
      and f: "List.find (\<lambda>r. runId r = trim rr) (runs s') = Some r'"
        "List.find (\<lambda>l. lineId l = trim lr) (lines r')
           = Some (line\<lparr>status := Done, executedAt := Some now\<rparr>)"
      by auto
    have "status (line\<lparr>status := Done, executedAt := Some now\<rparr>) = Done" by simp
    from replan_execute_done [OF p(1,2) f this, of now'] s' show ?thesis by simp
  qed
qed

lemma newcollection_execute_twice:
  assumes "fst (api_newcollection_execute now lr s) = Inr ok"
  shows "\<exists>l. api_newcollection_execute now' lr (snd (api_newcollection_execute now lr s))
            = (Inr (AlreadyExecuted l), snd (api_newcollection_execute now lr s))
          \<and> status l = Done"
proof -
  from newcollection_execute_InrD [OF assms] obtain line where
    p: "trim lr \<noteq> []"
      "List.find (\<lambda>l. lineId l = trim lr) (nc_items (newc s)) = Some line"
    and c: "status line = Done \<or>
         status line = Pending \<and>
           (\<exists>st. map_of (items (stock s)) (trim lr) = Some st \<and> \<not> qty st < nc_qty line)"
    by blast
  from c show ?thesis
  proof
    assume d: "status line = Done"
    from newcollection_execute_done [OF p d] show ?thesis using d by simp
  next
    assume "status line = Pending \<and>
           (\<exists>st. map_of (items (stock s)) (trim lr) = Some st \<and> \<not> qty st < nc_qty line)"
    then obtain st where pend: "status line = Pending"
      and st: "map_of (items (stock s)) (trim lr) = Some st" "\<not> qty st < nc_qty line"
      by blast
    from newcollection_execute_pending [OF p pend, of now] st
    obtain s' where
      s': "api_newcollection_execute now lr s
             = (Inr (Executed (line\<lparr>status := Done, executedAt := Some now\<rparr>)
                   (qty st - nc_qty line)), s')"
      and f: "List.find (\<lambda>l. lineId l = trim lr) (nc_items (newc s'))
           = Some (line\<lparr>status := Done, executedAt := Some now\<rparr>)"
      by auto
    have "status (line\<lparr>status := Done, executedAt := Some now\<rparr>) = Done" by simp
    from newcollection_execute_done [OF p(1) f this, of now'] s' show ?thesis by simp
  qed
qed

text \<open>The small shop after the executions.\<close>

lemma demo_executed_eq [code]:
  "demo_executed =
     demo_ledger\<lparr>stock := (stock demo_ledger)\<lparr>items :=
         AList.update ''123||M||Red''
           \<lparr>sku = ''123'', color = ''Red'', size' = ''M'', category = ''Dresses'', qty = 7\<rparr>
           (items (stock demo_ledger))\<rparr>,
       runs := [demo_run\<lparr>lines :=
         [(lines demo_run ! 0)\<lparr>status := Done, executedAt := Some 3000\<rparr>, lines demo_run ! 1]\<rparr>]\<rparr>"
  by code_simp

lemma demo_drained_eq [code]:
  "demo_drained =
     demo_ledger\<lparr>stock := (stock demo_ledger)\<lparr>items :=
         AList.update ''5||||Blue''
           \<lparr>sku = ''5'', color = ''Blue'', size' = [], category = ''Accessories'', qty = 0\<rparr>
           (items (stock demo_ledger))\<rparr>,
       runs :=
         [demo_run\<lparr>runId := ''RUN-2002'', createdAt := 2002\<rparr>,
          demo_run\<lparr>runId := ''RUN-2001'', createdAt := 2001, lines :=
            [lines demo_run ! 0, (lines demo_run ! 1)\<lparr>status := Done, executedAt := Some 3001\<rparr>]\<rparr>,
          demo_run\<lparr>lines :=
            [lines demo_run ! 0, (lines demo_run ! 1)\<lparr>status := Done, executedAt := Some 3000\<rparr>]\<rparr>]\<rparr>"
  by code_simp

text \<open>
  Claim C2. Take a request that finds a Pending line: the trimmed run id finds a run and
  the trimmed line id finds a line of it (or a line of the new-collection batch). The
  need is the line's \<open>pullQty\<close> for a replan line and its \<open>qty\<close> for a new-collection line,
  which is 1 on every line that a stock upload creates. Execution succeeds exactly when
  the ledger has the key with a quantity of at least the need. Then the key's quantity
  becomes the previous quantity minus the need, the other keys keep theirs, and the line
  is found Done with the time of the execution. When the quantity is below the need the
  request fails with the state unchanged: ledger, runs and batch.
\<close>

theorem execute_pending_line:
  "(trim runId_raw \<noteq> [] \<and> trim lineId_raw \<noteq> []
      \<and> List.find (\<lambda>r. runId r = trim runId_raw) (runs s) = Some r
      \<and> List.find (\<lambda>l. lineId l = trim lineId_raw) (lines r) = Some line
      \<and> status line = Pending
    \<longrightarrow>
      ((\<exists>ok s'. api_replan_execute now runId_raw lineId_raw s = (Inr ok, s'))
         \<longleftrightarrow> (\<exists>st. map_of (items (stock s)) (trim lineId_raw) = Some st \<and> pullQty line \<le> qty st))
      \<and> (\<forall>st. map_of (items (stock s)) (trim lineId_raw) = Some st \<and> pullQty line \<le> qty st \<longrightarrow>
           (\<exists>s'. api_replan_execute now runId_raw lineId_raw s
                    = (Inr (Executed (line\<lparr>status := Done, executedAt := Some now\<rparr>)
                              (qty st - pullQty line)), s')
              \<and> map_of (items (stock s')) (trim lineId_raw)
                  = Some (st\<lparr>qty := qty st - pullQty line\<rparr>)
              \<and> (\<forall>k. k \<noteq> trim lineId_raw \<longrightarrow>
                    map_of (items (stock s')) k = map_of (items (stock s)) k)
              \<and> (\<exists>r'. List.find (\<lambda>r. runId r = trim runId_raw) (runs s') = Some r'
                    \<and> List.find (\<lambda>l. lineId l = trim lineId_raw) (lines r')
                        = Some (line\<lparr>status := Done, executedAt := Some now\<rparr>))))
      \<and> (\<forall>st. map_of (items (stock s)) (trim lineId_raw) = Some st \<and> qty st < pullQty line \<longrightarrow>
           api_replan_execute now runId_raw lineId_raw s
             = (Inl (InsufficientStock (qty st) (pullQty line)), s)))
   \<and> (trim lineId_raw \<noteq> []
      \<and> List.find (\<lambda>l. lineId l = trim lineId_raw) (nc_items (newc s)) = Some nline
      \<and> status nline = Pending
    \<longrightarrow>
      ((\<exists>ok s'. api_newcollection_execute now lineId_raw s = (Inr ok, s'))
         \<longleftrightarrow> (\<exists>st. map_of (items (stock s)) (trim lineId_raw) = Some st \<and> nc_qty nline \<le> qty st))
      \<and> (\<forall>st. map_of (items (stock s)) (trim lineId_raw) = Some st \<and> nc_qty nline \<le> qty st \<longrightarrow>
           (\<exists>s'. api_newcollection_execute now lineId_raw s
                    = (Inr (Executed (nline\<lparr>status := Done, executedAt := Some now\<rparr>)
                              (qty st - nc_qty nline)), s')
              \<and> map_of (items (stock s')) (trim lineId_raw)
                  = Some (st\<lparr>qty := qty st - nc_qty nline\<rparr>)
              \<and> (\<forall>k. k \<noteq> trim lineId_raw \<longrightarrow>
                    map_of (items (stock s')) k = map_of (items (stock s)) k)
              \<and> List.find (\<lambda>l. lineId l = trim lineId_raw) (nc_items (newc s'))
                  = Some (nline\<lparr>status := Done, executedAt := Some now\<rparr>)))
      \<and> (\<forall>st. map_of (items (stock s)) (trim lineId_raw) = Some st \<and> qty st < nc_qty nline \<longrightarrow>
           api_newcollection_execute now lineId_raw s
             = (Inl (InsufficientStock (qty st) (nc_qty nline)), s)))
   \<and> (\<forall>l \<in> set (nc_items (newc (api_stock_update now fname rows s))). nc_qty l = 1)"
proof (intro conjI impI ballI)
  assume h: "trim runId_raw \<noteq> [] \<and> trim lineId_raw \<noteq> []
      \<and> List.find (\<lambda>r. runId r = trim runId_raw) (runs s) = Some r
      \<and> List.find (\<lambda>l. lineId l = trim lineId_raw) (lines r) = Some line
      \<and> status line = Pending"
  then have e: "case map_of (items (stock s)) (trim lineId_raw) of
           None \<Rightarrow> api_replan_execute now runId_raw lineId_raw s = (Inl ItemNotInStock, s)
         | Some st \<Rightarrow>
             if qty st < pullQty line
             then api_replan_execute now runId_raw lineId_raw s
                    = (Inl (InsufficientStock (qty st) (pullQty line)), s)
             else (\<exists>s'. api_replan_execute now runId_raw lineId_raw s
                      = (Inr (Executed (line\<lparr>status := Done, executedAt := Some now\<rparr>)
                                (qty st - pullQty line)), s')
                    \<and> map_of (items (stock s')) (trim lineId_raw)
                        = Some (st\<lparr>qty := qty st - pullQty line\<rparr>)
                    \<and> (\<forall>k. k \<noteq> trim lineId_raw \<longrightarrow>
                          map_of (items (stock s')) k = map_of (items (stock s)) k)
                    \<and> (\<exists>r'. List.find (\<lambda>r. runId r = trim runId_raw) (runs s') = Some r'
                          \<and> List.find (\<lambda>l. lineId l = trim lineId_raw) (lines r')
                              = Some (line\<lparr>status := Done, executedAt := Some now\<rparr>))
                    \<and> newc s' = newc s \<and> limits s' = limits s)"
    using replan_execute_pending [of runId_raw lineId_raw s r line now] by blast
  show "(\<exists>ok s'. api_replan_execute now runId_raw lineId_raw s = (Inr ok, s'))
         \<longleftrightarrow> (\<exists>st. map_of (items (stock s)) (trim lineId_raw) = Some st \<and> pullQty line \<le> qty st)"
    using e by (cases "map_of (items (stock s)) (trim lineId_raw)") (auto split: if_splits)
  show "\<forall>st. map_of (items (stock s)) (trim lineId_raw) = Some st \<and> pullQty line \<le> qty st \<longrightarrow>
           (\<exists>s'. api_replan_execute now runId_raw lineId_raw s
                    = (Inr (Executed (line\<lparr>status := Done, executedAt := Some now\<rparr>)
                              (qty st - pullQty line)), s')
              \<and> map_of (items (stock s')) (trim lineId_raw)
                  = Some (st\<lparr>qty := qty st - pullQty line\<rparr>)
              \<and> (\<forall>k. k \<noteq> trim lineId_raw \<longrightarrow>
                    map_of (items (stock s')) k = map_of (items (stock s)) k)
              \<and> (\<exists>r'. List.find (\<lambda>r. runId r = trim runId_raw) (runs s') = Some r'
                    \<and> List.find (\<lambda>l. lineId l = trim lineId_raw) (lines r')
                        = Some (line\<lparr>status := Done, executedAt := Some now\<rparr>)))"
    using e by (cases "map_of (items (stock s)) (trim lineId_raw)") (auto split: if_splits)
  show "\<forall>st. map_of (items (stock s)) (trim lineId_raw) = Some st \<and> qty st < pullQty line \<longrightarrow>
           api_replan_execute now runId_raw lineId_raw s
             = (Inl (InsufficientStock (qty st) (pullQty line)), s)"
    using e by (cases "map_of (items (stock s)) (trim lineId_raw)") (auto split: if_splits)
next
  assume h: "trim lineId_raw \<noteq> []
      \<and> List.find (\<lambda>l. lineId l = trim lineId_raw) (nc_items (newc s)) = Some nline
      \<and> status nline = Pending"
  then have e: "case map_of (items (stock s)) (trim lineId_raw) of
           None \<Rightarrow> api_newcollection_execute now lineId_raw s = (Inl ItemNotInStock, s)
         | Some st \<Rightarrow>
             if qty st < nc_qty nline
             then api_newcollection_execute now lineId_raw s
                    = (Inl (InsufficientStock (qty st) (nc_qty nline)), s)
             else (\<exists>s'. api_newcollection_execute now lineId_raw s
                      = (Inr (Executed (nline\<lparr>status := Done, executedAt := Some now\<rparr>)
                                (qty st - nc_qty nline)), s')
                    \<and> map_of (items (stock s')) (trim lineId_raw)
                        = Some (st\<lparr>qty := qty st - nc_qty nline\<rparr>)
                    \<and> (\<forall>k. k \<noteq> trim lineId_raw \<longrightarrow>
                          map_of (items (stock s')) k = map_of (items (stock s)) k)
                    \<and> List.find (\<lambda>l. lineId l = trim lineId_raw) (nc_items (newc s'))
                        = Some (nline\<lparr>status := Done, executedAt := Some now\<rparr>)
                    \<and> runs s' = runs s \<and> limits s' = limits s)"
    using newcollection_execute_pending [of lineId_raw s nline now] by blast
  show "(\<exists>ok s'. api_newcollection_execute now lineId_raw s = (Inr ok, s'))
         \<longleftrightarrow> (\<exists>st. map_of (items (stock s)) (trim lineId_raw) = Some st \<and> nc_qty nline \<le> qty st)"
    using e by (cases "map_of (items (stock s)) (trim lineId_raw)") (auto split: if_splits)
  show "\<forall>st. map_of (items (stock s)) (trim lineId_raw) = Some st \<and> nc_qty nline \<le> qty st \<longrightarrow>
           (\<exists>s'. api_newcollection_execute now lineId_raw s
                    = (Inr (Executed (nline\<lparr>status := Done, executedAt := Some now\<rparr>)
                              (qty st - nc_qty nline)), s')
              \<and> map_of (items (stock s')) (trim lineId_raw)
                  = Some (st\<lparr>qty := qty st - nc_qty nline\<rparr>)
              \<and> (\<forall>k. k \<noteq> trim lineId_raw \<longrightarrow>
                    map_of (items (stock s')) k = map_of (items (stock s)) k)
              \<and> List.find (\<lambda>l. lineId l = trim lineId_raw) (nc_items (newc s'))
                  = Some (nline\<lparr>status := Done, executedAt := Some now\<rparr>))"
    using e by (cases "map_of (items (stock s)) (trim lineId_raw)") (auto split: if_splits)
  show "\<forall>st. map_of (items (stock s)) (trim lineId_raw) = Some st \<and> qty st < nc_qty nline \<longrightarrow>
           api_newcollection_execute now lineId_raw s
             = (Inl (InsufficientStock (qty st) (nc_qty nline)), s)"
    using e by (cases "map_of (items (stock s)) (trim lineId_raw)") (auto split: if_splits)
next
  fix l assume "l \<in> set (nc_items (newc (api_stock_update now fname rows s)))"
  then show "nc_qty l = 1" using stock_update_unit_lines by blast
qed

text \<open>
  In the small shop: the dress line of the run takes 3 of 10; the sock line of the third
  run needs 3 when none is left, and fails; the sock line of the new-collection batch takes
  1 of 6, and fails when none is left.
\<close>

theorem execute_pending_line_witness:
  "List.find (\<lambda>r. runId r = trim ''RUN-2000'') (runs demo_planned) = Some demo_run
   \<and> List.find (\<lambda>l. lineId l = trim ''123||M||Red'') (lines demo_run) = Some (lines demo_run ! 0)
   \<and> status (lines demo_run ! 0) = Pending \<and> pullQty (lines demo_run ! 0) = 3
   \<and> map_of (items (stock demo_planned)) (trim ''123||M||Red'')
       = Some \<lparr>sku = ''123'', color = ''Red'', size' = ''M'', category = ''Dresses'', qty = 10\<rparr>
   \<and> (\<exists>s'. api_replan_execute 3000 ''RUN-2000'' ''123||M||Red'' demo_planned
          = (Inr (Executed ((lines demo_run ! 0)\<lparr>status := Done, executedAt := Some 3000\<rparr>) 7), s')
        \<and> map_of (items (stock s')) (trim ''123||M||Red'')
          = Some \<lparr>sku = ''123'', color = ''Red'', size' = ''M'', category = ''Dresses'', qty = 7\<rparr>)
   \<and> List.find (\<lambda>r. runId r = trim ''RUN-2002'') (runs demo_drained) = Some (hd (runs demo_drained))
   \<and> List.find (\<lambda>l. lineId l = trim ''5||||Blue'') (lines (hd (runs demo_drained)))
       = Some (lines demo_run ! 1)
   \<and> status (lines demo_run ! 1) = Pending \<and> pullQty (lines demo_run ! 1) = 3
   \<and> map_of (items (stock demo_drained)) (trim ''5||||Blue'')
       = Some \<lparr>sku = ''5'', color = ''Blue'', size' = [], category = ''Accessories'', qty = 0\<rparr>
   \<and> api_replan_execute 4000 ''RUN-2002'' ''5||||Blue'' demo_drained
       = (Inl (InsufficientStock 0 3), demo_drained)
   \<and> List.find (\<lambda>l. lineId l = trim ''5||||Blue'') (nc_items (newc demo_ledger))
       = Some (nc_items (newc demo_ledger) ! 2)
   \<and> status (nc_items (newc demo_ledger) ! 2) = Pending
   \<and> nc_qty (nc_items (newc demo_ledger) ! 2) = 1
   \<and> map_of (items (stock demo_ledger)) (trim ''5||||Blue'')
       = Some \<lparr>sku = ''5'', color = ''Blue'', size' = [], category = ''Accessories'', qty = 6\<rparr>
   \<and> (\<exists>s'. api_newcollection_execute 3000 ''5||||Blue'' demo_ledger
          = (Inr (Executed ((nc_items (newc demo_ledger) ! 2)\<lparr>status := Done, executedAt := Some 3000\<rparr>) 5), s')
        \<and> map_of (items (stock s')) (trim ''5||||Blue'')
          = Some \<lparr>sku = ''5'', color = ''Blue'', size' = [], category = ''Accessories'', qty = 5\<rparr>)
   \<and> List.find (\<lambda>l. lineId l = trim ''5||||Blue'') (nc_items (newc demo_drained))
       = Some (nc_items (newc demo_ledger) ! 2)
   \<and> api_newcollection_execute 4000 ''5||||Blue'' demo_drained
       = (Inl (InsufficientStock 0 1), demo_drained)"
proof -
  have t: "trim ''RUN-2000'' \<noteq> []" "trim ''123||M||Red'' \<noteq> []" "trim ''RUN-2002'' \<noteq> []"
    "trim ''5||||Blue'' \<noteq> []"
    by code_simp+
  have a1: "List.find (\<lambda>r. runId r = trim ''RUN-2000'') (runs demo_planned) = Some demo_run"
    by code_simp
  have a2: "List.find (\<lambda>l. lineId l = trim ''123||M||Red'') (lines demo_run) = Some (lines demo_run ! 0)"
    by code_simp
  have a3: "status (lines demo_run ! 0) = Pending" and a3': "pullQty (lines demo_run ! 0) = 3"
    by (simp_all add: demo_run_def)
  have a4: "map_of (items (stock demo_planned)) (trim ''123||M||Red'')
       = Some \<lparr>sku = ''123'', color = ''Red'', size' = ''M'', category = ''Dresses'', qty = 10\<rparr>"
    by code_simp
  note A = execute_pending_line [where runId_raw = "''RUN-2000''" and lineId_raw = "''123||M||Red''"
      and s = demo_planned and r = demo_run and line = "lines demo_run ! 0" and now = 3000,
      THEN conjunct1, rule_format, OF conjI [OF t(1) conjI [OF t(2) conjI [OF a1 conjI [OF a2 a3]]]]]
  have a5: "\<exists>s'. api_replan_execute 3000 ''RUN-2000'' ''123||M||Red'' demo_planned
          = (Inr (Executed ((lines demo_run ! 0)\<lparr>status := Done, executedAt := Some 3000\<rparr>) 7), s')
        \<and> map_of (items (stock s')) (trim ''123||M||Red'')
          = Some \<lparr>sku = ''123'', color = ''Red'', size' = ''M'', category = ''Dresses'', qty = 7\<rparr>"
    using A [THEN conjunct2, THEN conjunct1, rule_format, OF conjI [OF a4]] a3'
    by auto
  have b1: "List.find (\<lambda>r. runId r = trim ''RUN-2002'') (runs demo_drained) = Some (hd (runs demo_drained))"
    by code_simp
  have b2: "List.find (\<lambda>l. lineId l = trim ''5||||Blue'') (lines (hd (runs demo_drained)))
       = Some (lines demo_run ! 1)"
    by code_simp
  have b3: "status (lines demo_run ! 1) = Pending" and b3': "pullQty (lines demo_run ! 1) = 3"
    by (simp_all add: demo_run_def)
  have b4: "map_of (items (stock demo_drained)) (trim ''5||||Blue'')
       = Some \<lparr>sku = ''5'', color = ''Blue'', size' = [], category = ''Accessories'', qty = 0\<rparr>"
    by code_simp
  note B = execute_pending_line [where runId_raw = "''RUN-2002''" and lineId_raw = "''5||||Blue''"
      and s = demo_drained and r = "hd (runs demo_drained)"
      and line = "lines demo_run ! 1" and now = 4000,
      THEN conjunct1, rule_format, OF conjI [OF t(3) conjI [OF t(4) conjI [OF b1 conjI [OF b2 b3]]]]]
  have b5: "api_replan_execute 4000 ''RUN-2002'' ''5||||Blue'' demo_drained
       = (Inl (InsufficientStock 0 3), demo_drained)"
    using B [THEN conjunct2, THEN conjunct2, rule_format, OF conjI [OF b4]] b3'
    by simp
  have c1: "List.find (\<lambda>l. lineId l = trim ''5||||Blue'') (nc_items (newc demo_ledger))
       = Some (nc_items (newc demo_ledger) ! 2)"
    by code_simp
  have c2: "status (nc_items (newc demo_ledger) ! 2) = Pending"
    and c2': "nc_qty (nc_items (newc demo_ledger) ! 2) = 1"
    by code_simp+
  have c3: "map_of (items (stock demo_ledger)) (trim ''5||||Blue'')
       = Some \<lparr>sku = ''5'', color = ''Blue'', size' = [], category = ''Accessories'', qty = 6\<rparr>"
    by code_simp
  note C = execute_pending_line [where lineId_raw = "''5||||Blue''"
      and s = demo_ledger and nline = "nc_items (newc demo_ledger) ! 2" and now = 3000,
      THEN conjunct2, THEN conjunct1, rule_format, OF conjI [OF t(4) conjI [OF c1 c2]]]
  have c4: "\<exists>s'. api_newcollection_execute 3000 ''5||||Blue'' demo_ledger
          = (Inr (Executed ((nc_items (newc demo_ledger) ! 2)\<lparr>status := Done, executedAt := Some 3000\<rparr>) 5), s')
        \<and> map_of (items (stock s')) (trim ''5||||Blue'')
          = Some \<lparr>sku = ''5'', color = ''Blue'', size' = [], category = ''Accessories'', qty = 5\<rparr>"
    using C [THEN conjunct2, THEN conjunct1, rule_format, OF conjI [OF c3]] c2'
    by auto
  have d1: "List.find (\<lambda>l. lineId l = trim ''5||||Blue'') (nc_items (newc demo_drained))
       = Some (nc_items (newc demo_ledger) ! 2)"
    by code_simp
  note D = execute_pending_line [where lineId_raw = "''5||||Blue''"
      and s = demo_drained and nline = "nc_items (newc demo_ledger) ! 2" and now = 4000,
      THEN conjunct2, THEN conjunct1, rule_format, OF conjI [OF t(4) conjI [OF d1 c2]]]
  have d3: "api_newcollection_execute 4000 ''5||||Blue'' demo_drained
       = (Inl (InsufficientStock 0 1), demo_drained)"
    using D [THEN conjunct2, THEN conjunct2, rule_format, OF conjI [OF b4]] c2'
    by simp
  show ?thesis
    by (intro conjI a1 a2 a3 a3' a4 a5 b1 b2 b3 b3' b4 b5 c1 c2 c2' c3 c4 d1 d3)
qed

text \<open>
  Claim C3. A request that finds a Done line, in a run or in the new-collection batch,
  succeeds with the answer \<open>Already executed\<close> and leaves the state as it was: every ledger
  quantity and every line. So after any successful execution the same request succeeds
  again and changes nothing.
\<close>

theorem execute_done_line_noop:
  "(trim runId_raw \<noteq> [] \<and> trim lineId_raw \<noteq> []
      \<and> List.find (\<lambda>r. runId r = trim runId_raw) (runs s) = Some r
      \<and> List.find (\<lambda>l. lineId l = trim lineId_raw) (lines r) = Some line
      \<and> status line = Done
    \<longrightarrow> api_replan_execute now runId_raw lineId_raw s = (Inr (AlreadyExecuted line), s))
   \<and> (trim lineId_raw \<noteq> []
      \<and> List.find (\<lambda>l. lineId l = trim lineId_raw) (nc_items (newc s)) = Some nline
      \<and> status nline = Done
    \<longrightarrow> api_newcollection_execute now lineId_raw s = (Inr (AlreadyExecuted nline), s))
   \<and> (fst (api_replan_execute now runId_raw lineId_raw s) = Inr ok
    \<longrightarrow> (\<exists>l. api_replan_execute now' runId_raw lineId_raw
                (snd (api_replan_execute now runId_raw lineId_raw s))
              = (Inr (AlreadyExecuted l), snd (api_replan_execute now runId_raw lineId_raw s))
            \<and> status l = Done))
   \<and> (fst (api_newcollection_execute now lineId_raw s) = Inr nok
    \<longrightarrow> (\<exists>l. api_newcollection_execute now' lineId_raw
                (snd (api_newcollection_execute now lineId_raw s))
              = (Inr (AlreadyExecuted l), snd (api_newcollection_execute now lineId_raw s))
            \<and> status l = Done))"
  using replan_execute_done [of runId_raw lineId_raw s r line now]
    newcollection_execute_done [of lineId_raw s nline now]
    replan_execute_twice [of now runId_raw lineId_raw s ok now']
    newcollection_execute_twice [of now lineId_raw s nok now']
  by blast

text \<open>The dress line executed at time 3000 and again at 3500: 7 dresses remain.\<close>

theorem execute_done_line_noop_witness:
  "List.find (\<lambda>r. runId r = trim ''RUN-2000'') (runs demo_executed) = Some (hd (runs demo_executed))
   \<and> List.find (\<lambda>l. lineId l = trim ''123||M||Red'') (lines (hd (runs demo_executed)))
       = Some ((lines demo_run ! 0)\<lparr>status := Done, executedAt := Some 3000\<rparr>)
   \<and> api_replan_execute 3500 ''RUN-2000'' ''123||M||Red'' demo_executed
       = (Inr (AlreadyExecuted ((lines demo_run ! 0)\<lparr>status := Done, executedAt := Some 3000\<rparr>)),
          demo_executed)
   \<and> map_of (items (stock demo_executed)) ''123||M||Red''
       = Some \<lparr>sku = ''123'', color = ''Red'', size' = ''M'', category = ''Dresses'', qty = 7\<rparr>
   \<and> fst (api_replan_execute 3000 ''RUN-2000'' ''123||M||Red'' demo_planned)
       = Inr (Executed ((lines demo_run ! 0)\<lparr>status := Done, executedAt := Some 3000\<rparr>) 7)
   \<and> (\<exists>l. api_replan_execute 3500 ''RUN-2000'' ''123||M||Red''
              (snd (api_replan_execute 3000 ''RUN-2000'' ''123||M||Red'' demo_planned))
            = (Inr (AlreadyExecuted l),
               snd (api_replan_execute 3000 ''RUN-2000'' ''123||M||Red'' demo_planned))
          \<and> status l = Done)
   \<and> fst (api_newcollection_execute 3000 ''5||||Blue'' demo_ledger)
       = Inr (Executed ((nc_items (newc demo_ledger) ! 2)\<lparr>status := Done, executedAt := Some 3000\<rparr>) 5)
   \<and> (\<exists>l. api_newcollection_execute 3500 ''5||||Blue''
              (snd (api_newcollection_execute 3000 ''5||||Blue'' demo_ledger))
            = (Inr (AlreadyExecuted l), snd (api_newcollection_execute 3000 ''5||||Blue'' demo_ledger))
          \<and> status l = Done)"
proof -
  have t: "trim ''RUN-2000'' \<noteq> []" "trim ''123||M||Red'' \<noteq> []"
    by code_simp+
  have a1: "List.find (\<lambda>r. runId r = trim ''RUN-2000'') (runs demo_executed) = Some (hd (runs demo_executed))"
    by code_simp
  have a2: "List.find (\<lambda>l. lineId l = trim ''123||M||Red'') (lines (hd (runs demo_executed)))
       = Some ((lines demo_run ! 0)\<lparr>status := Done, executedAt := Some 3000\<rparr>)"
    by code_simp
  have a3: "status ((lines demo_run ! 0)\<lparr>status := Done, executedAt := Some 3000\<rparr>) = Done"
    by simp
  have a4: "api_replan_execute 3500 ''RUN-2000'' ''123||M||Red'' demo_executed
       = (Inr (AlreadyExecuted ((lines demo_run ! 0)\<lparr>status := Done, executedAt := Some 3000\<rparr>)),
          demo_executed)"
    by (rule execute_done_line_noop [where runId_raw = "''RUN-2000''" and lineId_raw = "''123||M||Red''"
      and s = demo_executed, THEN conjunct1, rule_format,
      OF conjI [OF t(1) conjI [OF t(2) conjI [OF a1 conjI [OF a2 a3]]]]])
  have a5: "map_of (items (stock demo_executed)) ''123||M||Red''
       = Some \<lparr>sku = ''123'', color = ''Red'', size' = ''M'', category = ''Dresses'', qty = 7\<rparr>"
    by code_simp
  have b1: "fst (api_replan_execute 3000 ''RUN-2000'' ''123||M||Red'' demo_planned)
       = Inr (Executed ((lines demo_run ! 0)\<lparr>status := Done, executedAt := Some 3000\<rparr>) 7)"
    by code_simp
  have b2: "\<exists>l. api_replan_execute 3500 ''RUN-2000'' ''123||M||Red''
              (snd (api_replan_execute 3000 ''RUN-2000'' ''123||M||Red'' demo_planned))
            = (Inr (AlreadyExecuted l),
               snd (api_replan_execute 3000 ''RUN-2000'' ''123||M||Red'' demo_planned))
          \<and> status l = Done"
    by (rule execute_done_line_noop [THEN conjunct2, THEN conjunct2, THEN conjunct1,
      rule_format, OF b1])
  have c1: "fst (api_newcollection_execute 3000 ''5||||Blue'' demo_ledger)
       = Inr (Executed ((nc_items (newc demo_ledger) ! 2)\<lparr>status := Done, executedAt := Some 3000\<rparr>) 5)"
    by code_simp
  have c2: "\<exists>l. api_newcollection_execute 3500 ''5||||Blue''
              (snd (api_newcollection_execute 3000 ''5||||Blue'' demo_ledger))
            = (Inr (AlreadyExecuted l), snd (api_newcollection_execute 3000 ''5||||Blue'' demo_ledger))
          \<and> status l = Done"
    by (rule execute_done_line_noop [THEN conjunct2, THEN conjunct2, THEN conjunct2,
      rule_format, OF c1])
  show ?thesis
    by (intro conjI a1 a2 a4 a5 b1 b2 c1 c2)
qed

section \<open>The new-collection batch of an upload\<close>

lemma distinct_foldl_update:
  "distinct (map fst m) \<Longrightarrow> distinct (map fst (foldl (\<lambda>m it. AList.update (f it) it m) m xs))"
  by (induction xs arbitrary: m) (simp_all add: distinct_update)

lemma distinct_build_items: "distinct (map fst (build_items parsed))"
  by (simp add: build_items_def distinct_foldl_update)

lemma lineId_nc_lines:
  "map lineId (map (\<lambda>(key, x). nc_line_of key x) (filter P its)) = map fst (filter P its)"
  by (induction its) (auto simp: nc_line_of_def)

lemma stock_update_items:
  "items (stock (api_stock_update now fname rows s)) = build_items (parseRows rows)"
  by (simp add: api_stock_update_def Let_def)

lemma stock_update_nc_items:
  "nc_items (newc (api_stock_update now fname rows s)) =
     map (\<lambda>(key, x). nc_line_of key x)
       (filter (\<lambda>(key, x). (items (stock s) = [] \<or> map_of (items (stock s)) key = None) \<and> 1 \<le> qty x)
          (build_items (parseRows rows)))"
  by (simp add: api_stock_update_def Let_def)

lemma fst_filter_distinct:
  assumes "distinct (map fst its)"
  shows "k \<in> fst ` set (filter P its) \<longleftrightarrow> (\<exists>x. map_of its k = Some x \<and> P (k, x))"
proof
  assume "k \<in> fst ` set (filter P its)"
  then obtain x where "(k, x) \<in> set its" "P (k, x)" by auto
  with assms show "\<exists>x. map_of its k = Some x \<and> P (k, x)" by auto
next
  assume "\<exists>x. map_of its k = Some x \<and> P (k, x)"
  then obtain x where "map_of its k = Some x" "P (k, x)" by blast
  then have "(k, x) \<in> set (filter P its)" by (simp add: map_of_SomeD)
  then show "k \<in> fst ` set (filter P its)" by (metis fst_conv imageI)
qed

lemma stock_update_line_ids:
  "k \<in> lineId ` set (nc_items (newc (api_stock_update now fname rows s))) \<longleftrightarrow>
     (\<exists>x. map_of (items (stock (api_stock_update now fname rows s))) k = Some x \<and> 1 \<le> qty x
        \<and> (items (stock s) = [] \<or> map_of (items (stock s)) k = None))"
proof -
  let ?its = "build_items (parseRows rows)"
  let ?P = "\<lambda>(key, x). (items (stock s) = [] \<or> map_of (items (stock s)) key = None) \<and> 1 \<le> qty x"
  have "lineId ` set (nc_items (newc (api_stock_update now fname rows s)))
      = set (map lineId (nc_items (newc (api_stock_update now fname rows s))))"
    by simp
  also have "\<dots> = fst ` set (filter ?P ?its)"
    unfolding stock_update_nc_items lineId_nc_lines by simp
  finally have "k \<in> lineId ` set (nc_items (newc (api_stock_update now fname rows s)))
      \<longleftrightarrow> k \<in> fst ` set (filter ?P ?its)"
    by simp
  also have "\<dots> \<longleftrightarrow> (\<exists>x. map_of ?its k = Some x \<and> ?P (k, x))"
    by (rule fst_filter_distinct) (rule distinct_build_items)
  finally show ?thesis by (simp add: stock_update_items) blast
qed

lemma stock_update_line_fields:
  assumes "l \<in> set (nc_items (newc (api_stock_update now fname rows s)))"
  shows "status l = Pending \<and> nc_qty l = 1 \<and> executedAt l = None \<and>
     (\<exists>x. map_of (items (stock (api_stock_update now fname rows s))) (lineId l) = Some x \<and>
        sku l = sku x \<and> size' l = size' x \<and> color l = color x \<and> category l = category x)"
proof -
  from assms obtain k x where kx: "(k, x) \<in> set (build_items (parseRows rows))"
    and l: "l = nc_line_of k x"
    unfolding stock_update_nc_items by auto
  from kx distinct_build_items [of "parseRows rows"]
  have "map_of (build_items (parseRows rows)) k = Some x" by simp
  with l show ?thesis by (simp add: nc_line_of_def stock_update_items)
qed

text \<open>
  Claim C7. A stock upload replaces the new-collection batch, whatever the batch was. If
  the prior ledger was empty the mode is BASE_PENDING_ALL and the batch has a line exactly
  for the keys of the new snapshot whose quantity is at least 1. If the prior ledger was
  not empty the mode is UPDATE_PENDING_NEW_ONLY and the batch has a line exactly for the
  keys of the new snapshot, with a quantity of at least 1, that the prior ledger did not
  have. There is one line per key; every line is Pending with \<open>qty\<close> 1 and no execution
  time, and carries the SKU, size, colour and category of its item.
\<close>

theorem stock_update_new_collection:
  "(items (stock s) = [] \<longrightarrow>
      mode (newc (api_stock_update now fname rows s)) = Some BASE_PENDING_ALL
      \<and> (\<forall>k. k \<in> lineId ` set (nc_items (newc (api_stock_update now fname rows s))) \<longleftrightarrow>
            (\<exists>x. map_of (items (stock (api_stock_update now fname rows s))) k = Some x \<and> 1 \<le> qty x)))
   \<and> (items (stock s) \<noteq> [] \<longrightarrow>
      mode (newc (api_stock_update now fname rows s)) = Some UPDATE_PENDING_NEW_ONLY
      \<and> (\<forall>k. k \<in> lineId ` set (nc_items (newc (api_stock_update now fname rows s))) \<longleftrightarrow>
            (\<exists>x. map_of (items (stock (api_stock_update now fname rows s))) k = Some x \<and> 1 \<le> qty x
               \<and> map_of (items (stock s)) k = None)))
   \<and> distinct (map lineId (nc_items (newc (api_stock_update now fname rows s))))
   \<and> (\<forall>l \<in> set (nc_items (newc (api_stock_update now fname rows s))).
        status l = Pending \<and> nc_qty l = 1 \<and> executedAt l = None \<and>
        (\<exists>x. map_of (items (stock (api_stock_update now fname rows s))) (lineId l) = Some x \<and>
           sku l = sku x \<and> size' l = size' x \<and> color l = color x \<and> category l = category x))
   \<and> newc (api_stock_update now fname rows (s\<lparr>newc := b\<rparr>)) = newc (api_stock_update now fname rows s)"
proof -
  have a: "items (stock s) = [] \<longrightarrow>
      mode (newc (api_stock_update now fname rows s)) = Some BASE_PENDING_ALL
      \<and> (\<forall>k. k \<in> lineId ` set (nc_items (newc (api_stock_update now fname rows s))) \<longleftrightarrow>
            (\<exists>x. map_of (items (stock (api_stock_update now fname rows s))) k = Some x \<and> 1 \<le> qty x))"
  proof (intro impI conjI allI)
    assume "items (stock s) = []"
    then show "mode (newc (api_stock_update now fname rows s)) = Some BASE_PENDING_ALL"
      by (simp add: api_stock_update_def Let_def)
  next
    fix k assume "items (stock s) = []"
    then show "k \<in> lineId ` set (nc_items (newc (api_stock_update now fname rows s))) \<longleftrightarrow>
        (\<exists>x. map_of (items (stock (api_stock_update now fname rows s))) k = Some x \<and> 1 \<le> qty x)"
      unfolding stock_update_line_ids by simp
  qed
  have b: "items (stock s) \<noteq> [] \<longrightarrow>
      mode (newc (api_stock_update now fname rows s)) = Some UPDATE_PENDING_NEW_ONLY
      \<and> (\<forall>k. k \<in> lineId ` set (nc_items (newc (api_stock_update now fname rows s))) \<longleftrightarrow>
            (\<exists>x. map_of (items (stock (api_stock_update now fname rows s))) k = Some x \<and> 1 \<le> qty x
               \<and> map_of (items (stock s)) k = None))"
  proof (intro impI conjI allI)
    assume "items (stock s) \<noteq> []"
    then show "mode (newc (api_stock_update now fname rows s)) = Some UPDATE_PENDING_NEW_ONLY"
      by (simp add: api_stock_update_def Let_def)
  next
    fix k assume "items (stock s) \<noteq> []"
    then show "k \<in> lineId ` set (nc_items (newc (api_stock_update now fname rows s))) \<longleftrightarrow>
        (\<exists>x. map_of (items (stock (api_stock_update now fname rows s))) k = Some x \<and> 1 \<le> qty x
           \<and> map_of (items (stock s)) k = None)"
      unfolding stock_update_line_ids by simp
  qed
  have c: "distinct (map lineId (nc_items (newc (api_stock_update now fname rows s))))"
    unfolding stock_update_nc_items lineId_nc_lines
    by (rule distinct_map_filter) (rule distinct_build_items)
  have d: "\<forall>l \<in> set (nc_items (newc (api_stock_update now fname rows s))).
        status l = Pending \<and> nc_qty l = 1 \<and> executedAt l = None \<and>
        (\<exists>x. map_of (items (stock (api_stock_update now fname rows s))) (lineId l) = Some x \<and>
           sku l = sku x \<and> size' l = size' x \<and> color l = color x \<and> category l = category x)"
    using stock_update_line_fields by blast
  have e: "newc (api_stock_update now fname rows (s\<lparr>newc := b\<rparr>))
      = newc (api_stock_update now fname rows s)"
    by (simp add: api_stock_update_def Let_def)
  from a b c d e show ?thesis by (intro conjI)
qed

text \<open>
  The scenario of the specification: after a clear, the small shop's stock report (three
  keys in stock and hats with quantity 0) gives three Pending lines of quantity 1; the
  later report gives one line, for the scarves, and none for the dresses whose quantity went
  from 10 to 12.
\<close>

theorem stock_update_new_collection_witness:
  "items (stock (api_stock_clear 500 demo_executed)) = []
   \<and> mode (newc (api_stock_update 1000 ''stock.xlsx'' demo_stock_rows (api_stock_clear 500 demo_executed)))
       = Some BASE_PENDING_ALL
   \<and> map lineId (nc_items (newc (api_stock_update 1000 ''stock.xlsx'' demo_stock_rows
         (api_stock_clear 500 demo_executed))))
       = [''123||M||Red'', ''123||L||Red'', ''5||||Blue'']
   \<and> map nc_qty (nc_items (newc (api_stock_update 1000 ''stock.xlsx'' demo_stock_rows
         (api_stock_clear 500 demo_executed))))
       = [1, 1, 1]
   \<and> items (stock demo_ledger) \<noteq> []
   \<and> mode (newc demo_restocked) = Some UPDATE_PENDING_NEW_ONLY
   \<and> map lineId (nc_items (newc demo_restocked)) = [''8||||'']
   \<and> map_of (items (stock demo_ledger)) ''123||M||Red''
       = Some \<lparr>sku = ''123'', color = ''Red'', size' = ''M'', category = ''Dresses'', qty = 10\<rparr>
   \<and> map_of (items (stock demo_restocked)) ''123||M||Red''
       = Some \<lparr>sku = ''123'', color = ''Red'', size' = ''M'', category = ''Dresses'', qty = 12\<rparr>
   \<and> ''123||M||Red'' \<notin> lineId ` set (nc_items (newc demo_restocked))
   \<and> ''8||||'' \<in> lineId ` set (nc_items (newc demo_restocked))"
proof -
  let ?cleared = "api_stock_clear 500 demo_executed"
  have a1: "items (stock ?cleared) = []" by (simp add: api_stock_clear_def)
  have a2: "mode (newc (api_stock_update 1000 ''stock.xlsx'' demo_stock_rows ?cleared))
       = Some BASE_PENDING_ALL"
    using stock_update_new_collection [of ?cleared 1000 "''stock.xlsx''" demo_stock_rows] a1
    by blast
  have a3: "map lineId (nc_items (newc (api_stock_update 1000 ''stock.xlsx'' demo_stock_rows ?cleared)))
       = [''123||M||Red'', ''123||L||Red'', ''5||||Blue'']"
    by code_simp
  have a4: "map nc_qty (nc_items (newc (api_stock_update 1000 ''stock.xlsx'' demo_stock_rows ?cleared)))
       = [1, 1, 1]"
    by code_simp
  have b1: "items (stock demo_ledger) \<noteq> []" by code_simp
  note B = stock_update_new_collection [of demo_ledger 6000 "''stock2.xlsx''" demo_restock_rows,
      folded demo_restocked_def, THEN conjunct2, THEN conjunct1, rule_format, OF b1]
  have b2: "mode (newc demo_restocked) = Some UPDATE_PENDING_NEW_ONLY"
    by (rule B [THEN conjunct1])
  have b3: "map lineId (nc_items (newc demo_restocked)) = [''8||||'']" by code_simp
  have b4: "map_of (items (stock demo_ledger)) ''123||M||Red''
       = Some \<lparr>sku = ''123'', color = ''Red'', size' = ''M'', category = ''Dresses'', qty = 10\<rparr>"
    by code_simp
  have b5: "map_of (items (stock demo_restocked)) ''123||M||Red''
       = Some \<lparr>sku = ''123'', color = ''Red'', size' = ''M'', category = ''Dresses'', qty = 12\<rparr>"
    by code_simp
  have b6: "''123||M||Red'' \<notin> lineId ` set (nc_items (newc demo_restocked))"
    using B [THEN conjunct2, rule_format, of "''123||M||Red''"] b4 by simp
  have b7: "map_of (items (stock demo_restocked)) ''8||||''
       = Some \<lparr>sku = ''8'', color = [], size' = [], category = ''Accessories'', qty = 2\<rparr>"
    by code_simp
  have b8: "map_of (items (stock demo_ledger)) ''8||||'' = None" by code_simp
  have b9: "''8||||'' \<in> lineId ` set (nc_items (newc demo_restocked))"
    using B [THEN conjunct2, rule_format, of "''8||||''"] b7 b8 by simp
  show ?thesis by (intro conjI a1 a2 a3 a4 b1 b2 b3 b4 b5 b6 b9)
qed

section \<open>Quantities stay non-negative\<close>

lemma list_all_update:
  "list_all P al \<Longrightarrow> P (k, v) \<Longrightarrow> list_all P (AList.update k v al)"
  by (induction al) auto

lemma map_of_list_all: "list_all P al \<Longrightarrow> map_of al k = Some v \<Longrightarrow> P (k, v)"
  by (induction al) (auto split: if_splits)

lemma get_or_zero_nonneg: "list_all (\<lambda>e. 0 \<le> snd e) m \<Longrightarrow> 0 \<le> get_or_zero m k"
  using map_of_list_all [of "\<lambda>e. 0 \<le> snd e" m k]
  by (auto simp: get_or_zero_def split: option.splits)

lemma add_qty_nonneg:
  "list_all (\<lambda>e. 0 \<le> snd e) m \<Longrightarrow> 0 \<le> q \<Longrightarrow> list_all (\<lambda>e. (0::int) \<le> snd e) (add_qty k q m)"
  unfolding add_qty_def
  by (rule list_all_update) (simp_all add: get_or_zero_nonneg)

lemma parseRows_loop_nonneg:
  "rows_nonneg rows \<Longrightarrow> list_all (\<lambda>e. 0 \<le> snd e) agg \<Longrightarrow>
     list_all (\<lambda>e. 0 \<le> snd e) (parseRows_loop cat agg rows)"
proof (induction cat agg rows rule: parseRows_loop.induct)
  case (1 cat agg)
  then show ?case by simp
next
  case (2 cat agg cell n rs)
  from "2.prems" have rs: "rows_nonneg rs" and n: "0 \<le> (case n of Some v \<Rightarrow> v | None \<Rightarrow> 0)"
    by (auto simp: rows_nonneg_def split: option.splits)
  show ?case
    using "2.IH" rs n "2.prems"(2)
    by (auto simp: Let_def add_qty_nonneg)
qed

lemma parseRows_nonneg: "rows_nonneg rows \<Longrightarrow> list_all (\<lambda>it. 0 \<le> qty it) (parseRows rows)"
  using parseRows_loop_nonneg [of rows "[]" "[]"]
  by (auto simp: parseRows_def list_all_iff Let_def)

lemma foldl_update_nonneg:
  "list_all (\<lambda>it. 0 \<le> qty it) xs \<Longrightarrow> list_all (\<lambda>e. 0 \<le> qty (snd e)) m \<Longrightarrow>
     list_all (\<lambda>e. 0 \<le> qty (snd e)) (foldl (\<lambda>m it. AList.update (key_of it) it m) m xs)"
  by (induction xs arbitrary: m) (simp_all add: list_all_update)

lemma stock_update_nonneg:
  "rows_nonneg rows \<Longrightarrow> ledger_nonneg (api_stock_update now fname rows s)"
  using foldl_update_nonneg [OF parseRows_nonneg, of rows "[]"]
  by (simp add: ledger_nonneg_def api_stock_update_def Let_def build_items_def)

lemma replan_execute_nonneg:
  "ledger_nonneg s \<Longrightarrow> ledger_nonneg (snd (api_replan_execute now rr lr s))"
  by (auto simp: ledger_nonneg_def api_replan_execute_def Let_def list_all_update
      split: option.splits)

lemma newcollection_execute_nonneg:
  "ledger_nonneg s \<Longrightarrow> ledger_nonneg (snd (api_newcollection_execute now lr s))"
  by (auto simp: ledger_nonneg_def api_newcollection_execute_def Let_def list_all_update
      split: option.splits)

lemma executeAll_loop_nonneg:
  "list_all (\<lambda>e. 0 \<le> qty (snd e)) its \<Longrightarrow>
     list_all (\<lambda>e. 0 \<le> qty (snd e)) (b_items (executeAll_loop need_of now its ls))"
proof (induction ls arbitrary: its)
  case Nil
  then show ?case by simp
next
  case (Cons l ls)
  show ?case
  proof (cases "map_of its (lineId l)")
    case None
    with Cons show ?thesis by (simp add: Let_def)
  next
    case (Some st)
    have "\<not> qty st < need_of l \<Longrightarrow>
        list_all (\<lambda>e. 0 \<le> qty (snd e)) (AList.update (lineId l) (st\<lparr>qty := qty st - need_of l\<rparr>) its)"
      using Cons.prems by (simp add: list_all_update)
    with Some Cons show ?thesis by (simp add: Let_def)
  qed
qed

lemma replan_executeAll_nonneg:
  "ledger_nonneg s \<Longrightarrow> ledger_nonneg (snd (api_replan_executeAll now rr s))"
  by (auto simp: ledger_nonneg_def api_replan_executeAll_def Let_def executeAll_loop_nonneg
      split: option.splits)

lemma newcollection_executeAll_nonneg:
  "ledger_nonneg s \<Longrightarrow> ledger_nonneg (snd (api_newcollection_executeAll now s))"
  by (simp add: ledger_nonneg_def api_newcollection_executeAll_def Let_def executeAll_loop_nonneg)

lemma replan_execute_decrement:
  assumes "fst (api_replan_execute now rr lr s) = Inr (Executed l n)"
  shows "\<exists>st. map_of (items (stock s)) (trim lr) = Some st \<and> pullQty l \<le> qty st
     \<and> n = qty st - pullQty l \<and> 0 \<le> n
     \<and> map_of (items (stock (snd (api_replan_execute now rr lr s)))) (trim lr) = Some (st\<lparr>qty := n\<rparr>)"
  using assms
  by (auto simp: api_replan_execute_def Let_def update_conv' split: option.splits if_splits)

lemma newcollection_execute_decrement:
  assumes "fst (api_newcollection_execute now lr s) = Inr (Executed l n)"
  shows "\<exists>st. map_of (items (stock s)) (trim lr) = Some st \<and> nc_qty l \<le> qty st
     \<and> n = qty st - nc_qty l \<and> 0 \<le> n
     \<and> map_of (items (stock (snd (api_newcollection_execute now lr s)))) (trim lr) = Some (st\<lparr>qty := n\<rparr>)"
  using assms
  by (auto simp: api_newcollection_execute_def Let_def update_conv' split: option.splits if_splits)

lemma taken_Cons:
  "taken need_of k (l # ls) (l' # ls') =
     (if lineId l = k \<and> status l = Pending \<and> status l' = Done then need_of l else 0)
     + taken need_of k ls ls'"
  by (simp add: taken_def)

lemma not_Done: "status l \<noteq> Done \<longleftrightarrow> status l = Pending"
  by (cases "status l") auto

lemma executeAll_loop_qty:
  "map_of (b_items (executeAll_loop need_of now its ls)) k =
     map_option (\<lambda>st. st\<lparr>qty := qty st
         - taken need_of k ls (b_lines (executeAll_loop need_of now its ls))\<rparr>) (map_of its k)"
proof (induction ls arbitrary: its)
  case Nil
  show ?case by (cases "map_of its k") (simp_all add: taken_def)
next
  case (Cons l ls)
  show ?case
  proof (cases "status l = Done")
    case True
    then show ?thesis by (simp add: Let_def taken_Cons Cons.IH)
  next
    case nd: False
    then have pend: "status l = Pending" by (simp add: not_Done)
    show ?thesis
    proof (cases "map_of its (lineId l)")
      case None
      with nd pend show ?thesis by (simp add: Let_def taken_Cons Cons.IH)
    next
      case (Some st)
      show ?thesis
      proof (cases "need_of l \<le> 0 \<or> qty st < need_of l")
        case True
        with Some nd pend show ?thesis by (auto simp: Let_def taken_Cons Cons.IH)
      next
        case False
        let ?its' = "AList.update (lineId l) (st\<lparr>qty := qty st - need_of l\<rparr>) its"
        from False Some nd have step: "executeAll_loop need_of now its (l # ls) =
            (executeAll_loop need_of now ?its' ls)
              \<lparr>b_lines := l\<lparr>status := Done, executedAt := Some now\<rparr> # b_lines (executeAll_loop need_of now ?its' ls),
               b_executed := Suc (b_executed (executeAll_loop need_of now ?its' ls))\<rparr>"
          by (simp add: Let_def)
        show ?thesis
        proof (cases "k = lineId l")
          case True
          with Some pend Cons.IH [of ?its'] show ?thesis
            unfolding step by (simp add: taken_Cons update_conv' algebra_simps)
        next
          case False
          with Some pend Cons.IH [of ?its'] show ?thesis
            unfolding step by (simp add: taken_Cons update_conv')
        qed
      qed
    qed
  qed
qed

text \<open>
  Claim C4, as amended. After an upload the ledger has no negative quantity if no row of
  the file has one. Execution keeps a ledger without negative quantities that way:
  single-line and bulk, of a run and of the new-collection batch. A successful single-line
  execution finds the key in the ledger with a quantity of at least the need, and leaves
  exactly the quantity minus the need, which is not negative. A bulk execution leaves for
  every key its quantity minus the needs of the lines of that key that it took from
  Pending to Done.
\<close>

theorem ledger_stays_nonneg:
  "(rows_nonneg rows \<longrightarrow> ledger_nonneg (api_stock_update now fname rows s))
   \<and> (ledger_nonneg s \<longrightarrow>
        ledger_nonneg (snd (api_replan_execute now rr lr s))
        \<and> ledger_nonneg (snd (api_newcollection_execute now lr s))
        \<and> ledger_nonneg (snd (api_replan_executeAll now rr s))
        \<and> ledger_nonneg (snd (api_newcollection_executeAll now s)))
   \<and> (fst (api_replan_execute now rr lr s) = Inr (Executed l n) \<longrightarrow>
        (\<exists>st. map_of (items (stock s)) (trim lr) = Some st \<and> pullQty l \<le> qty st
           \<and> n = qty st - pullQty l \<and> 0 \<le> n
           \<and> map_of (items (stock (snd (api_replan_execute now rr lr s)))) (trim lr)
               = Some (st\<lparr>qty := n\<rparr>)))
   \<and> (fst (api_newcollection_execute now lr s) = Inr (Executed nl m) \<longrightarrow>
        (\<exists>st. map_of (items (stock s)) (trim lr) = Some st \<and> nc_qty nl \<le> qty st
           \<and> m = qty st - nc_qty nl \<and> 0 \<le> m
           \<and> map_of (items (stock (snd (api_newcollection_execute now lr s)))) (trim lr)
               = Some (st\<lparr>qty := m\<rparr>)))
   \<and> (trim rr \<noteq> [] \<and> List.find (\<lambda>r. runId r = trim rr) (runs s) = Some r \<longrightarrow>
        (\<exists>ex fs ls'. api_replan_executeAll now rr s
             = (Inr (ex, fs, ls'), snd (api_replan_executeAll now rr s))
           \<and> (\<forall>k. map_of (items (stock (snd (api_replan_executeAll now rr s)))) k
                 = map_option (\<lambda>st. st\<lparr>qty := qty st - taken pullQty k (lines r) ls'\<rparr>)
                     (map_of (items (stock s)) k))))
   \<and> (\<exists>ex fs ls'. api_newcollection_executeAll now s
          = ((ex, fs, ls'), snd (api_newcollection_executeAll now s))
        \<and> (\<forall>k. map_of (items (stock (snd (api_newcollection_executeAll now s)))) k
              = map_option (\<lambda>st. st\<lparr>qty := qty st - taken nc_qty k (nc_items (newc s)) ls'\<rparr>)
                  (map_of (items (stock s)) k)))"
proof -
  have bulk_r: "trim rr \<noteq> [] \<and> List.find (\<lambda>r. runId r = trim rr) (runs s) = Some r \<longrightarrow>
        (\<exists>ex fs ls'. api_replan_executeAll now rr s
             = (Inr (ex, fs, ls'), snd (api_replan_executeAll now rr s))
           \<and> (\<forall>k. map_of (items (stock (snd (api_replan_executeAll now rr s)))) k
                 = map_option (\<lambda>st. st\<lparr>qty := qty st - taken pullQty k (lines r) ls'\<rparr>)
                     (map_of (items (stock s)) k)))"
    by (simp add: api_replan_executeAll_def Let_def executeAll_loop_qty)
  have bulk_n: "\<exists>ex fs ls'. api_newcollection_executeAll now s
          = ((ex, fs, ls'), snd (api_newcollection_executeAll now s))
        \<and> (\<forall>k. map_of (items (stock (snd (api_newcollection_executeAll now s)))) k
              = map_option (\<lambda>st. st\<lparr>qty := qty st - taken nc_qty k (nc_items (newc s)) ls'\<rparr>)
                  (map_of (items (stock s)) k))"
    by (simp add: api_newcollection_executeAll_def Let_def executeAll_loop_qty)
  show ?thesis
    using stock_update_nonneg [of rows now fname s]
      replan_execute_nonneg [of s now rr lr] newcollection_execute_nonneg [of s now lr]
      replan_executeAll_nonneg [of s now rr] newcollection_executeAll_nonneg [of s now]
      replan_execute_decrement [of now rr lr s l n]
      newcollection_execute_decrement [of now lr s nl m]
      bulk_r bulk_n
    by blast
qed

text \<open>
  The small shop: its stock report has no negative row, so the ledger has no negative
  quantity, and none after executing the run, line by line or in bulk. The dress line
  takes 3 of 10.
\<close>

theorem ledger_stays_nonneg_witness:
  "rows_nonneg demo_stock_rows \<and> ledger_nonneg demo_ledger \<and> ledger_nonneg demo_planned
   \<and> ledger_nonneg (snd (api_replan_execute 3000 ''RUN-2000'' ''123||M||Red'' demo_planned))
   \<and> ledger_nonneg (snd (api_newcollection_execute 3000 ''123||M||Red'' demo_planned))
   \<and> ledger_nonneg (snd (api_replan_executeAll 3000 ''RUN-2000'' demo_planned))
   \<and> ledger_nonneg (snd (api_newcollection_executeAll 3000 demo_planned))
   \<and> fst (api_replan_execute 3000 ''RUN-2000'' ''123||M||Red'' demo_planned)
       = Inr (Executed ((lines demo_run ! 0)\<lparr>status := Done, executedAt := Some 3000\<rparr>) 7)
   \<and> (\<exists>st. map_of (items (stock demo_planned)) (trim ''123||M||Red'') = Some st
         \<and> pullQty ((lines demo_run ! 0)\<lparr>status := Done, executedAt := Some 3000\<rparr>) \<le> qty st
         \<and> 7 = qty st - pullQty ((lines demo_run ! 0)\<lparr>status := Done, executedAt := Some 3000\<rparr>)
         \<and> map_of (items (stock (snd (api_replan_execute 3000 ''RUN-2000'' ''123||M||Red''
               demo_planned)))) (trim ''123||M||Red'') = Some (st\<lparr>qty := 7\<rparr>))
   \<and> List.find (\<lambda>r. runId r = trim ''RUN-2000'') (runs demo_planned) = Some demo_run
   \<and> map (\<lambda>k. map_option qty (map_of (items (stock (snd (api_replan_executeAll 3000 ''RUN-2000''
          demo_planned)))) k)) [''123||M||Red'', ''123||L||Red'', ''5||||Blue'']
       = [Some 7, Some 4, Some 3]"
proof -
  have a1: "rows_nonneg demo_stock_rows" by code_simp
  have a2: "ledger_nonneg demo_ledger"
    using ledger_stays_nonneg [where rows = demo_stock_rows and now = 1000
        and fname = "''stock.xlsx''"
        and s = "initial_state\<lparr>limits := \<lparr>defaultMin = Some 1, defaultMax = Some 3, skus = []\<rparr>\<rparr>",
        THEN conjunct1, rule_format, OF a1]
    by (simp add: demo_ledger_def)
  have a3: "ledger_nonneg demo_planned" by code_simp
  note T = ledger_stays_nonneg [where s = demo_planned and now = 3000 and rr = "''RUN-2000''"
      and lr = "''123||M||Red''" and r = demo_run]
  note N = T [THEN conjunct2, THEN conjunct1, rule_format, OF a3]
  have b: "fst (api_replan_execute 3000 ''RUN-2000'' ''123||M||Red'' demo_planned)
       = Inr (Executed ((lines demo_run ! 0)\<lparr>status := Done, executedAt := Some 3000\<rparr>) 7)"
    by code_simp
  have c: "\<exists>st. map_of (items (stock demo_planned)) (trim ''123||M||Red'') = Some st
         \<and> pullQty ((lines demo_run ! 0)\<lparr>status := Done, executedAt := Some 3000\<rparr>) \<le> qty st
         \<and> 7 = qty st - pullQty ((lines demo_run ! 0)\<lparr>status := Done, executedAt := Some 3000\<rparr>)
         \<and> map_of (items (stock (snd (api_replan_execute 3000 ''RUN-2000'' ''123||M||Red''
               demo_planned)))) (trim ''123||M||Red'') = Some (st\<lparr>qty := 7\<rparr>)"
    using ledger_stays_nonneg [where s = demo_planned and now = 3000 and rr = "''RUN-2000''"
      and lr = "''123||M||Red''"
      and l = "(lines demo_run ! 0)\<lparr>status := Done, executedAt := Some 3000\<rparr>" and n = 7,
      THEN conjunct2, THEN conjunct2, THEN conjunct1, rule_format, OF b]
    by blast
  have d: "List.find (\<lambda>r. runId r = trim ''RUN-2000'') (runs demo_planned) = Some demo_run"
    by code_simp
  have e: "map (\<lambda>k. map_option qty (map_of (items (stock (snd (api_replan_executeAll 3000 ''RUN-2000''
          demo_planned)))) k)) [''123||M||Red'', ''123||L||Red'', ''5||||Blue'']
       = [Some 7, Some 4, Some 3]"
    by code_simp
  show ?thesis
    by (intro conjI a1 a2 a3 N [THEN conjunct1] N [THEN conjunct2, THEN conjunct1]
        N [THEN conjunct2, THEN conjunct2, THEN conjunct1]
        N [THEN conjunct2, THEN conjunct2, THEN conjunct2] b c d e)
qed

text \<open>
  Claim C4 as it was stated fails at the snapshot replace: a stock report with a row of
  quantity -5 leaves the item with quantity -5 in the ledger. An execution on such a
  ledger, here of the new-collection line of the socks, succeeds and leaves the negative
  quantity where it is.
\<close>

theorem stock_update_negative_quantity:
  "map_of (items (stock (api_stock_update 1000 ''stock.xlsx''
       [(''Dresses'', None), (''[123] Dress (M, Red)'', Some (- 5))] initial_state))) ''123||M||Red''
     = Some \<lparr>sku = ''123'', color = ''Red'', size' = ''M'', category = ''Dresses'', qty = - 5\<rparr>
   \<and> \<not> ledger_nonneg (api_stock_update 1000 ''stock.xlsx''
       [(''Dresses'', None), (''[123] Dress (M, Red)'', Some (- 5))] initial_state)
   \<and> map (\<lambda>e. (fst e, qty (snd e))) (items (stock demo_negative))
       = [(''123||M||Red'', - 5), (''5||||Blue'', 6)]
   \<and> fst (api_newcollection_execute 2000 ''5||||Blue'' demo_negative)
       = Inr (Executed \<lparr>sku = ''5'', color = ''Blue'', size' = [], category = ''Dresses'',
                         lineId = ''5||||Blue'', status = Done, executedAt = Some 2000,
                         nc_qty = 1\<rparr> 5)
   \<and> map (\<lambda>e. (fst e, qty (snd e)))
        (items (stock (snd (api_newcollection_execute 2000 ''5||||Blue'' demo_negative))))
       = [(''123||M||Red'', - 5), (''5||||Blue'', 5)]
   \<and> \<not> ledger_nonneg (snd (api_newcollection_execute 2000 ''5||||Blue'' demo_negative))"
proof -
  have "map_of (items (stock (api_stock_update 1000 ''stock.xlsx''
       [(''Dresses'', None), (''[123] Dress (M, Red)'', Some (- 5))] initial_state))) ''123||M||Red''
     = Some \<lparr>sku = ''123'', color = ''Red'', size' = ''M'', category = ''Dresses'', qty = - 5\<rparr>
   \<and> \<not> ledger_nonneg (api_stock_update 1000 ''stock.xlsx''
       [(''Dresses'', None), (''[123] Dress (M, Red)'', Some (- 5))] initial_state)"
    by code_simp
  moreover have "map (\<lambda>e. (fst e, qty (snd e))) (items (stock demo_negative))
       = [(''123||M||Red'', - 5), (''5||||Blue'', 6)]"
    by code_simp
  moreover have "fst (api_newcollection_execute 2000 ''5||||Blue'' demo_negative)
       = Inr (Executed \<lparr>sku = ''5'', color = ''Blue'', size' = [], category = ''Dresses'',
                         lineId = ''5||||Blue'', status = Done, executedAt = Some 2000,
                         nc_qty = 1\<rparr> 5)"
    by code_simp
  moreover have "map (\<lambda>e. (fst e, qty (snd e)))
        (items (stock (snd (api_newcollection_execute 2000 ''5||||Blue'' demo_negative))))
       = [(''123||M||Red'', - 5), (''5||||Blue'', 5)]"
    by code_simp
  moreover have "\<not> ledger_nonneg (snd (api_newcollection_execute 2000 ''5||||Blue'' demo_negative))"
    by code_simp
  ultimately show ?thesis by blast
qed

section \<open>The dashboard's list of stock without a recent pull\<close>

lemma get_or_zero_note_done:
  "get_or_zero (note_done cat m l) k =
     (case (if status l = Done \<and> (cat = [] \<or> category l = cat) \<and> skuKey l = k
            then executedAt l else None) of
        None \<Rightarrow> get_or_zero m k
      | Some t \<Rightarrow> max t (get_or_zero m k))"
  by (auto simp: note_done_def get_or_zero_def update_conv' max.commute split: option.splits)

lemma get_or_zero_foldl_note_done:
  "get_or_zero (foldl (note_done cat) m ls) k =
     fold max
       (List.map_filter
          (\<lambda>l. if status l = Done \<and> (cat = [] \<or> category l = cat) \<and> skuKey l = k
               then executedAt l else None) ls)
       (get_or_zero m k)"
proof (induction ls arbitrary: m)
  case Nil
  show ?case by simp
next
  case (Cons l ls)
  show ?case
    by (simp add: Cons.IH get_or_zero_note_done split: option.splits)
qed

lemma get_or_zero_lastBySku: "get_or_zero (lastBySku cat rs) k = last_done cat rs k"
  using get_or_zero_foldl_note_done [of cat "[]" "concat (map lines rs)" k]
  by (simp add: lastBySku_def last_done_def done_times_def get_or_zero_def)

lemma stale_entry_eq:
  "stale_entry cutoff cat (lastBySku cat rs) e =
     (if 0 < qty (snd e) \<and> (cat = [] \<or> category (snd e) = cat) \<and>
         (last_done cat rs (skuKey (snd e)) = 0 \<or> last_done cat rs (skuKey (snd e)) < cutoff)
      then Some (stale_item_of cat rs (snd e)) else None)"
  by (auto simp: stale_entry_def Let_def get_or_zero_lastBySku stale_item_of_def)

lemma stale_entry_fun:
  "stale_entry cutoff cat (lastBySku cat rs) =
     (\<lambda>e. if 0 < qty (snd e) \<and> (cat = [] \<or> category (snd e) = cat) \<and>
         (last_done cat rs (skuKey (snd e)) = 0 \<or> last_done cat rs (skuKey (snd e)) < cutoff)
      then Some (stale_item_of cat rs (snd e)) else None)"
  by (rule ext) (rule stale_entry_eq)

lemma map_filter_if:
  "List.map_filter (\<lambda>x. if P x then Some (f x) else None) xs = map f (filter P xs)"
  by (induction xs) auto

lemma iso_cmp_le:
  "iso_cmp a b \<le> 0 \<longleftrightarrow> a = None \<or> (\<exists>t u. a = Some t \<and> b = Some u \<and> t \<le> u)"
  by (auto simp: iso_cmp_def split: option.splits)

lemma stale_cmp_total: "stale_cmp a b \<le> 0 \<or> stale_cmp b a \<le> 0"
  by (auto simp: stale_cmp_def iso_cmp_def split: option.splits)

lemma stale_cmp_trans: "stale_cmp a b \<le> 0 \<Longrightarrow> stale_cmp b c \<le> 0 \<Longrightarrow> stale_cmp a c \<le> 0"
  by (auto simp: stale_cmp_def iso_cmp_def split: option.splits if_splits)

lemma noReplan_eq:
  "dashboard_noReplan now raw category_raw s =
     take 200 (js_sort stale_cmp
       (map (\<lambda>e. stale_item_of (trim category_raw) (runs s) (snd e))
          (filter (\<lambda>e. is_stale now raw (trim category_raw) (runs s) (snd e)) (items (stock s)))))"
  by (simp add: dashboard_noReplan_def Let_def stale_entry_fun map_filter_if is_stale_def
      stale_days_def)

lemma last_done_Max: "last_done cat rs k = Max (set (0 # done_times cat rs k))"
  using Max.set_eq_fold [of 0 "done_times cat rs k"] by (simp add: last_done_def)

text \<open>
  Claim C6, as amended. The list \<open>noReplan\<close> is the first 200 entries of a list that has
  one entry for every ledger item with a positive quantity, of the filter category when
  one is set, whose last Done execution is absent or older than \<open>now\<close> minus the stale days.
  The last execution is the latest execution time over all the runs of the history among
  the Done lines recorded under the item's category, SKU, size and colour (the lines of
  the filter category when one is set). The list is in ascending order of that time, the
  items without one first.
\<close>

theorem noReplan_exact:
  "\<exists>L. dashboard_noReplan now raw category_raw s = take 200 L
     \<and> sorted_wrt (\<lambda>a b. lastExecutedAt a = None \<or>
          (\<exists>t u. lastExecutedAt a = Some t \<and> lastExecutedAt b = Some u \<and> t \<le> u)) L
     \<and> (\<forall>e. e \<in> set L \<longleftrightarrow>
          (\<exists>st \<in> snd ` set (items (stock s)).
             is_stale now raw (trim category_raw) (runs s) st
             \<and> e = stale_item_of (trim category_raw) (runs s) st))
     \<and> length L = length (filter (\<lambda>e. is_stale now raw (trim category_raw) (runs s) (snd e))
                      (items (stock s)))
     \<and> (\<forall>k. last_done (trim category_raw) (runs s) k
            = Max (set (0 # done_times (trim category_raw) (runs s) k)))"
proof -
  let ?xs = "map (\<lambda>e. stale_item_of (trim category_raw) (runs s) (snd e))
          (filter (\<lambda>e. is_stale now raw (trim category_raw) (runs s) (snd e)) (items (stock s)))"
  let ?L = "js_sort stale_cmp ?xs"
  have "sorted_wrt (\<lambda>a b. stale_cmp a b \<le> 0) ?L"
    by (rule sorted_js_sort [OF stale_cmp_total stale_cmp_trans])
  then have srt: "sorted_wrt (\<lambda>a b. lastExecutedAt a = None \<or>
          (\<exists>t u. lastExecutedAt a = Some t \<and> lastExecutedAt b = Some u \<and> t \<le> u)) ?L"
    by (simp add: stale_cmp_def iso_cmp_le)
  have mem: "\<forall>e. e \<in> set ?L \<longleftrightarrow>
          (\<exists>st \<in> snd ` set (items (stock s)).
             is_stale now raw (trim category_raw) (runs s) st
             \<and> e = stale_item_of (trim category_raw) (runs s) st)"
    by (auto simp: set_js_sort)
  have len: "length ?L = length (filter (\<lambda>e. is_stale now raw (trim category_raw) (runs s) (snd e))
                      (items (stock s)))"
    by (simp add: length_js_sort)
  have mx: "\<forall>k. last_done (trim category_raw) (runs s) k
            = Max (set (0 # done_times (trim category_raw) (runs s) k))"
    by (simp only: last_done_Max) simp
  from noReplan_eq [of now raw category_raw s] srt mem len mx show ?thesis by blast
qed

text \<open>
  The small shop after the dress line was executed at time 3000. Fourteen days and a
  millisecond later the dresses are stale and come last, after the two items that were never
  executed; a millisecond earlier they are not listed.
\<close>

theorem noReplan_exact_witness:
  "dashboard_noReplan 1209603001 None [] demo_executed
     = [\<lparr>sku = ''123'', color = ''Red'', size' = ''L'', category = ''Dresses'',
         nr_stockQty = 4, lastExecutedAt = None\<rparr>,
        \<lparr>sku = ''5'', color = ''Blue'', size' = [], category = ''Accessories'',
         nr_stockQty = 6, lastExecutedAt = None\<rparr>,
        \<lparr>sku = ''123'', color = ''Red'', size' = ''M'', category = ''Dresses'',
         nr_stockQty = 7, lastExecutedAt = Some 3000\<rparr>]
   \<and> length (filter (\<lambda>e. is_stale 1209603001 None (trim []) (runs demo_executed) (snd e))
                      (items (stock demo_executed))) = 3
   \<and> (\<exists>L. dashboard_noReplan 1209603001 None [] demo_executed = take 200 L \<and> length L = 3)
   \<and> dashboard_noReplan 1209603000 None [] demo_executed
     = [\<lparr>sku = ''123'', color = ''Red'', size' = ''L'', category = ''Dresses'',
         nr_stockQty = 4, lastExecutedAt = None\<rparr>,
        \<lparr>sku = ''5'', color = ''Blue'', size' = [], category = ''Accessories'',
         nr_stockQty = 6, lastExecutedAt = None\<rparr>]"
proof -
  have a: "dashboard_noReplan 1209603001 None [] demo_executed
     = [\<lparr>sku = ''123'', color = ''Red'', size' = ''L'', category = ''Dresses'',
         nr_stockQty = 4, lastExecutedAt = None\<rparr>,
        \<lparr>sku = ''5'', color = ''Blue'', size' = [], category = ''Accessories'',
         nr_stockQty = 6, lastExecutedAt = None\<rparr>,
        \<lparr>sku = ''123'', color = ''Red'', size' = ''M'', category = ''Dresses'',
         nr_stockQty = 7, lastExecutedAt = Some 3000\<rparr>]"
    by code_simp
  have b: "length (filter (\<lambda>e. is_stale 1209603001 None (trim []) (runs demo_executed) (snd e))
                      (items (stock demo_executed))) = 3"
    by code_simp
  from noReplan_exact [of 1209603001 None "[]" demo_executed] b
  have c: "\<exists>L. dashboard_noReplan 1209603001 None [] demo_executed = take 200 L \<and> length L = 3"
    by auto
  have d: "dashboard_noReplan 1209603000 None [] demo_executed
     = [\<lparr>sku = ''123'', color = ''Red'', size' = ''L'', category = ''Dresses'',
         nr_stockQty = 4, lastExecutedAt = None\<rparr>,
        \<lparr>sku = ''5'', color = ''Blue'', size' = [], category = ''Accessories'',
         nr_stockQty = 6, lastExecutedAt = None\<rparr>]"
    by code_simp
  show ?thesis by (intro conjI a b c d)
qed

text \<open>
  Claim C6 as it was stated, with the last execution taken per inventory key (SKU, size,
  colour), fails once a stock report moves an item to another category. The dresses
  123||M||Red were pulled at time 3000; at time 5000, well within fourteen days, the
  dashboard lists them as never executed, because the ledger now has them under Sale and
  the run line under Dresses.
\<close>

theorem noReplan_ignores_pull_under_old_category:
  "inventory_key_times (runs demo_recat) ''123'' ''M'' ''Red'' = [3000]
   \<and> \<not> 3000 < 5000 - stale_days None * 24 * 3600 * 1000
   \<and> map_of (items (stock demo_recat)) ''123||M||Red''
       = Some \<lparr>sku = ''123'', color = ''Red'', size' = ''M'', category = ''Sale'', qty = 7\<rparr>
   \<and> dashboard_noReplan 5000 None [] demo_recat
       = [\<lparr>sku = ''123'', color = ''Red'', size' = ''M'', category = ''Sale'',
           nr_stockQty = 7, lastExecutedAt = None\<rparr>,
          \<lparr>sku = ''5'', color = ''Blue'', size' = [], category = ''Sale'',
           nr_stockQty = 6, lastExecutedAt = None\<rparr>]"
  by code_simp

end
